theory Spec2Isabelle
  imports Main "HOL-Library.Word"
begin

unbundle bit_operations_syntax

section \<open>The parser side: cursors and types of the C syntax tree\<close>

text \<open>
  The handlers of \<^verbatim>\<open>ast_handlers.py\<close> read a libclang syntax tree and write
  Binary Ninja types into a binary view.  Both libraries are outside the repository;
  the model keeps of them what the handlers read and write.

  A libclang type is a finite tree: a pointer has a pointee, an array an element type,
  a function type a result and argument types.  The link from a type back to the cursor
  that declares it may close a cycle (a struct whose field points to the struct), so it
  is an index into the table of cursors carried by the context.
\<close>

datatype TypeKind =
    INVALID | UNEXPOSED | VOID | BOOL | CHAR_U | UCHAR | CHAR16 | CHAR32 | USHORT | UINT
  | ULONG | ULONGLONG | UINT128 | CHAR_S | SCHAR | WCHAR | SHORT | INT' | LONG | LONGLONG
  | INT128 | FLOAT | DOUBLE | LONGDOUBLE | NULLPTR | FLOAT128 | HALF | POINTER | RECORD
  | ENUM | TYPEDEF | FUNCTIONNOPROTO | FUNCTIONPROTO | CONSTANTARRAY | INCOMPLETEARRAY
  | ELABORATED

datatype CursorKind =
    TYPEDEF_DECL | PARM_DECL | VAR_DECL | FUNCTION_DECL | ENUM_DECL | STRUCT_DECL
  | FIELD_DECL | UNION_DECL | ENUM_CONSTANT_DECL | PACKED_ATTR | NO_DECL_FOUND
  | OTHER_CURSOR

datatype TokenKind = PUNCTUATION | KEYWORD | IDENTIFIER | LITERAL | COMMENT

datatype Type =
    Invalid
  | Builtin TypeKind string
  | Pointer string Type
  | ConstantArray string Type int
  | IncompleteArray string Type
  | FunctionProto string Type "Type list" bool
  | FunctionNoProto string Type
  | Typedef string nat
  | Record string nat "nat list" int int
  | Enum string nat int int
  | Elaborated string Type

text \<open>
  The arguments are, in order: \<open>Builtin\<close> kind and spelling; \<open>Pointer\<close> spelling and
  pointee; \<open>ConstantArray\<close> spelling, element type and element count;
  \<open>IncompleteArray\<close> spelling and element type; \<open>FunctionProto\<close> spelling, result,
  argument types and the variadic flag; \<open>FunctionNoProto\<close> spelling and result;
  \<open>Typedef\<close> spelling and declaring cursor; \<open>Record\<close> spelling, declaring cursor,
  field cursors, size and alignment; \<open>Enum\<close> spelling, declaring cursor, size and
  alignment; \<open>Elaborated\<close> spelling and the named type.  The accessors below answer as libclang does on a type of another kind:
  with the invalid type, no declaration, no arguments.
\<close>

fun type_kind :: "Type \<Rightarrow> TypeKind" where
  "type_kind Invalid = INVALID"
| "type_kind (Builtin k s) = k"
| "type_kind (Pointer s p) = POINTER"
| "type_kind (ConstantArray s e n) = CONSTANTARRAY"
| "type_kind (IncompleteArray s e) = INCOMPLETEARRAY"
| "type_kind (FunctionProto s r as v) = FUNCTIONPROTO"
| "type_kind (FunctionNoProto s r) = FUNCTIONNOPROTO"
| "type_kind (Typedef s d) = TYPEDEF"
| "type_kind (Record s d fs sz al) = RECORD"
| "type_kind (Enum s d sz al) = ENUM"
| "type_kind (Elaborated s t) = ELABORATED"

fun type_spelling :: "Type \<Rightarrow> string" where
  "type_spelling Invalid = []"
| "type_spelling (Builtin k s) = s"
| "type_spelling (Pointer s p) = s"
| "type_spelling (ConstantArray s e n) = s"
| "type_spelling (IncompleteArray s e) = s"
| "type_spelling (FunctionProto s r as v) = s"
| "type_spelling (FunctionNoProto s r) = s"
| "type_spelling (Typedef s d) = s"
| "type_spelling (Record s d fs sz al) = s"
| "type_spelling (Enum s d sz al) = s"
| "type_spelling (Elaborated s t) = s"

fun get_pointee :: "Type \<Rightarrow> Type" where
  "get_pointee (Pointer s p) = p"
| "get_pointee t = Invalid"

fun get_array_element_type :: "Type \<Rightarrow> Type" where
  "get_array_element_type (ConstantArray s e n) = e"
| "get_array_element_type (IncompleteArray s e) = e"
| "get_array_element_type t = Invalid"

fun get_array_size :: "Type \<Rightarrow> int" where
  "get_array_size (ConstantArray s e n) = n"
| "get_array_size t = - 1"

fun get_result :: "Type \<Rightarrow> Type" where
  "get_result (FunctionProto s r as v) = r"
| "get_result (FunctionNoProto s r) = r"
| "get_result t = Invalid"

fun argument_types :: "Type \<Rightarrow> Type list" where
  "argument_types (FunctionProto s r as v) = as"
| "argument_types t = []"

fun is_function_variadic :: "Type \<Rightarrow> bool" where
  "is_function_variadic (FunctionProto s r as v) = v"
| "is_function_variadic t = False"

fun get_named_type :: "Type \<Rightarrow> Type" where
  "get_named_type (Elaborated s t) = t"
| "get_named_type t = Invalid"

fun declaration_id :: "Type \<Rightarrow> nat option" where
  "declaration_id (Typedef s d) = Some d"
| "declaration_id (Record s d fs sz al) = Some d"
| "declaration_id (Enum s d sz al) = Some d"
| "declaration_id (Elaborated s t) = declaration_id t"
| "declaration_id t = None"

fun field_ids :: "Type \<Rightarrow> nat list" where
  "field_ids (Record s d fs sz al) = fs"
| "field_ids (Elaborated s t) = field_ids t"
| "field_ids t = []"

fun get_size :: "Type \<Rightarrow> int" where
  "get_size (Record s d fs sz al) = sz"
| "get_size (Enum s d sz al) = sz"
| "get_size (Elaborated s t) = get_size t"
| "get_size t = - 1"

fun get_align :: "Type \<Rightarrow> int" where
  "get_align (Record s d fs sz al) = al"
| "get_align (Enum s d sz al) = al"
| "get_align (Elaborated s t) = get_align t"
| "get_align t = - 1"

record Cursor =
  kind :: CursorKind
  spelling :: string
  type :: Type
  is_anonymous :: bool
  is_definition :: bool
  semantic_parent :: nat
  underlying_typedef_type :: Type
  get_children :: "nat list"
  get_arguments :: "nat list"
  get_tokens :: "(TokenKind \<times> string) list"
  get_definition :: "nat option"
  enum_value :: int

text \<open>
  \<open>semantic_parent\<close>, \<open>get_children\<close>, \<open>get_arguments\<close> and \<open>get_definition\<close> name
  cursors by their index in the table; \<open>get_definition\<close> is \<open>None\<close> where libclang has
  no definition to return and the Python binding hands back \<^verbatim>\<open>None\<close>.  A type without a
  declaration answers \<^verbatim>\<open>get_declaration()\<close> with the cursor \<open>no_decl_found\<close>.
\<close>

definition no_decl_found :: Cursor where
  "no_decl_found =
     \<lparr>kind = NO_DECL_FOUND, spelling = [], type = Invalid, is_anonymous = False,
      is_definition = False, semantic_parent = 0, underlying_typedef_type = Invalid,
      get_children = [], get_arguments = [], get_tokens = [], get_definition = None,
      enum_value = 0\<rparr>"

section \<open>The Binary Ninja side: types, the binary view, the context\<close>

datatype CallingConvention =
    default_calling_convention | cdecl_calling_convention
  | fastcall_calling_convention | stdcall_calling_convention

datatype BnType =
    VoidType
  | BoolType
  | IntegerType nat bool
  | NamedTypeReference string
  | PointerType BnType
  | ArrayType BnType int
  | FunctionType BnType "(BnType \<times> string) list" "CallingConvention option" bool
  | StructureType int int "(BnType \<times> string) list" bool
  | EnumerationType "(string \<times> int) list"

text \<open>
  \<open>StructureType w a ms u\<close> is a structure of width \<open>w\<close> and alignment \<open>a\<close> with the
  members \<open>ms\<close> (type and name, in the order they were appended), a union when \<open>u\<close>
  holds.  \<open>FunctionType r ps cc v\<close> has result \<open>r\<close>, parameters \<open>ps\<close>, the calling
  convention \<open>cc\<close> (\<open>None\<close> when the caller passes none) and the variadic flag \<open>v\<close>.
  The first four constructors are what a parser of type strings may answer with.

  The binary view is the registry of named types.
\<close>

type_synonym BinaryView = "string \<rightharpoonup> BnType"

definition Structure :: BnType where
  "Structure = StructureType 0 1 [] False"

text \<open>
  The context collects what the two libraries and \<^verbatim>\<open>xxhash\<close> compute: the table of
  cursors, the parser of type strings of the binary view (it sees the registry, and
  answers \<open>Inl msg\<close> where Binary Ninja raises \<^verbatim>\<open>SyntaxError(msg)\<close>), the truth value
  Python gives a Binary Ninja type object in \<^verbatim>\<open>if t:\<close>, and the 64-bit digest of
  \<^verbatim>\<open>xxh64\<close>.
\<close>

record Context =
  cursor :: "nat \<Rightarrow> Cursor"
  parser :: "BinaryView \<Rightarrow> string \<Rightarrow> string + (BnType \<times> string)"
  truth :: "BnType \<Rightarrow> bool"
  xxh64 :: "string \<Rightarrow> 64 word"

definition get_declaration :: "Context \<Rightarrow> Type \<Rightarrow> Cursor" where
  "get_declaration ctx t =
     (case declaration_id t of None \<Rightarrow> no_decl_found | Some d \<Rightarrow> cursor ctx d)"

definition get_fields :: "Context \<Rightarrow> Type \<Rightarrow> Cursor list" where
  "get_fields ctx t = map (cursor ctx) (field_ids t)"

section \<open>Results of a handler\<close>

text \<open>
  A handler returns a pair of a name and a type, or Python's \<^verbatim>\<open>None\<close>, or it raises.
  The registry is mutated in place, so what was registered before an exception stays
  registered.  A recursion through \<^verbatim>\<open>define_type\<close> that does not end by itself is ended
  by the interpreter with \<^verbatim>\<open>RecursionError\<close>, an exception like the others.
\<close>

datatype exn =
    SyntaxError string | TypeError | AttributeError | UnboundLocalError | AssertionError
  | RecursionError

datatype 'a outcome = Raises exn BinaryView | Returns 'a BinaryView

type_synonym resolved = "(string \<times> BnType) option"

type_synonym handler = "Cursor \<Rightarrow> BinaryView \<Rightarrow> resolved outcome"

fun and_then :: "'a outcome \<Rightarrow> ('a \<Rightarrow> BinaryView \<Rightarrow> 'b outcome) \<Rightarrow> 'b outcome" where
  "and_then (Raises e bv) f = Raises e bv"
| "and_then (Returns a bv) f = f a bv"

text \<open>\<^verbatim>\<open>name, t = handler(...)\<close>: unpacking \<^verbatim>\<open>None\<close> raises \<^verbatim>\<open>TypeError\<close>.\<close>

definition unpack :: "resolved outcome \<Rightarrow> (string \<Rightarrow> BnType \<Rightarrow> BinaryView \<Rightarrow> 'b outcome) \<Rightarrow> 'b outcome" where
  "unpack m f =
     and_then m (\<lambda>r bv. case r of None \<Rightarrow> Raises TypeError bv | Some (n, t) \<Rightarrow> f n t bv)"

definition parse_type_string :: "Context \<Rightarrow> string \<Rightarrow> BinaryView \<Rightarrow> (BnType \<times> string) outcome" where
  "parse_type_string ctx text bv =
     (case parser ctx bv text of
        Inl msg \<Rightarrow> Raises (SyntaxError msg) bv
      | Inr r \<Rightarrow> Returns r bv)"

definition define_user_type :: "string \<Rightarrow> BnType \<Rightarrow> BinaryView \<Rightarrow> BinaryView" where
  "define_user_type name t bv = bv(name \<mapsto> t)"

definition get_type_by_name :: "BinaryView \<Rightarrow> string \<Rightarrow> BnType option" where
  "get_type_by_name bv name = bv name"

text \<open>
  \<^verbatim>\<open>if t:\<close> and \<^verbatim>\<open>if not t:\<close> on the answer of \<^verbatim>\<open>get_type_by_name\<close>: \<^verbatim>\<open>None\<close> is
  false, a type object has the truth value the library gives it.
\<close>

definition truthy :: "Context \<Rightarrow> BnType option \<Rightarrow> bool" where
  "truthy ctx r = (case r of None \<Rightarrow> False | Some t \<Rightarrow> truth ctx t)"

section \<open>Strings as Python handles them\<close>

definition is_space :: "char \<Rightarrow> bool" where
  "is_space c \<longleftrightarrow>
     c \<in> set [CHR '' '', CHR 0x09, CHR 0x0A, CHR 0x0B, CHR 0x0C, CHR 0x0D,
               CHR 0x1C, CHR 0x1D, CHR 0x1E, CHR 0x1F]"

text \<open>\<^verbatim>\<open>s.split()\<close>: the maximal runs of characters that are not white space.\<close>

fun split_from :: "string \<Rightarrow> string \<Rightarrow> string list" where
  "split_from word [] = (if word = [] then [] else [word])"
| "split_from word (c # cs) =
     (if is_space c then (if word = [] then split_from [] cs else word # split_from [] cs)
      else split_from (word @ [c]) cs)"

definition split :: "string \<Rightarrow> string list" where
  "split s = split_from [] s"

text \<open>\<^verbatim>\<open>sub in s\<close>, \<^verbatim>\<open>s.endswith(suffix)\<close> and \<^verbatim>\<open>s.replace(old, new)\<close>.\<close>

fun contains :: "string \<Rightarrow> string \<Rightarrow> bool" where
  "contains [] sub = (sub = [])"
| "contains (c # cs) sub = (take (length sub) (c # cs) = sub \<or> contains cs sub)"

definition endswith :: "string \<Rightarrow> string \<Rightarrow> bool" where
  "endswith s suffix \<longleftrightarrow>
     length suffix \<le> length s \<and> drop (length s - length suffix) s = suffix"

function replace :: "string \<Rightarrow> string \<Rightarrow> string \<Rightarrow> string" where
  "replace s old new =
     (if s = [] then []
      else if old \<noteq> [] \<and> take (length old) s = old
        then new @ replace (drop (length old) s) old new
      else hd s # replace (tl s) old new)"
  by pat_completeness auto
termination
  by (relation "measure (\<lambda>(s, old, new). length s)") (auto simp: neq_Nil_conv)

declare replace.simps [simp del]

section \<open>The constants of the module\<close>

definition base_types :: "TypeKind list" where
  "base_types =
     [BOOL, CHAR16, CHAR32, CHAR_S, CHAR_U, DOUBLE, FLOAT, FLOAT128, HALF, INT', UINT,
      INT128, LONG, LONGLONG, LONGDOUBLE, SCHAR, SHORT, ULONG, UCHAR, ULONGLONG, USHORT,
      VOID, WCHAR]"

definition compiler_directives :: "string list" where
  "compiler_directives = [''__unaligned'', ''__attribute__((stdcall))'']"

definition INCOMPLETE_ARRAY_ARBITRARY_SIZE :: int where
  "INCOMPLETE_ARRAY_ARBITRARY_SIZE = 0x1000"

definition void_types :: "string list" where
  "void_types =
     [''const void'', ''const volatile void'', ''volatile void'', ''__unaligned void'',
      ''const __unaligned void'']"

definition check_if_base_type :: "Type \<Rightarrow> bool" where
  "check_if_base_type t \<longleftrightarrow> type_kind t \<in> set base_types"

text \<open>The rewriting of a spelling that Binary Ninja cannot parse to plain \<^verbatim>\<open>void\<close>.\<close>

definition void_spelling :: "string \<Rightarrow> string" where
  "void_spelling s = (if s \<in> set void_types then ''void'' else s)"

definition remove_compiler_directives :: "string \<Rightarrow> string" where
  "remove_compiler_directives type_str =
     fold (\<lambda>str_token sanitized_str.
             if str_token \<in> set compiler_directives then sanitized_str
             else sanitized_str @ str_token @ '' '')
          (split type_str) []"

text \<open>
  \<^verbatim>\<open>xxhash.xxh64_hexdigest\<close>: the 64-bit digest written as sixteen lower-case
  hexadecimal digits, the most significant first.
\<close>

definition hex_digit :: "nat \<Rightarrow> char" where
  "hex_digit n = ''0123456789abcdef'' ! (n mod 16)"

definition hexdigest :: "64 word \<Rightarrow> string" where
  "hexdigest w = map (\<lambda>i. hex_digit (unat (drop_bit (4 * (15 - i)) w AND 15))) [0..<16]"

definition xxh64_hexdigest :: "Context \<Rightarrow> string \<Rightarrow> string" where
  "xxh64_hexdigest ctx s = hexdigest (xxh64 ctx s)"

text \<open>
  The digest itself is computed by the xxHash library, outside the repository.  For the
  examples that depend on its values, this is the library's function XXH64 as published:
  four accumulators over stripes of 32 bytes for an input of 32 bytes or more, then the
  remaining words of eight bytes, one of four, the single bytes, and the final mixing;
  words are read in little-endian order.  \<^verbatim>\<open>xxh64_hexdigest\<close> calls it with the seed 0.
\<close>

definition PRIME64_1 :: "64 word" where "PRIME64_1 = 0x9E3779B185EBCA87"
definition PRIME64_2 :: "64 word" where "PRIME64_2 = 0xC2B2AE3D27D4EB4F"
definition PRIME64_3 :: "64 word" where "PRIME64_3 = 0x165667B19E3779F9"
definition PRIME64_4 :: "64 word" where "PRIME64_4 = 0x85EBCA77C2B2AE63"
definition PRIME64_5 :: "64 word" where "PRIME64_5 = 0x27D4EB2F165667C5"

definition read_le :: "string \<Rightarrow> 64 word" where
  "read_le bs = foldr (\<lambda>c w. of_nat (of_char c) + push_bit 8 w) bs 0"

definition XXH64_round :: "64 word \<Rightarrow> 64 word \<Rightarrow> 64 word" where
  "XXH64_round acc input = word_rotl 31 (acc + input * PRIME64_2) * PRIME64_1"

definition XXH64_mergeRound :: "64 word \<Rightarrow> 64 word \<Rightarrow> 64 word" where
  "XXH64_mergeRound acc val = (acc XOR XXH64_round 0 val) * PRIME64_1 + PRIME64_4"

primrec XXH64_stripes ::
  "nat \<Rightarrow> 64 word \<times> 64 word \<times> 64 word \<times> 64 word \<Rightarrow> string \<Rightarrow>
   64 word \<times> 64 word \<times> 64 word \<times> 64 word" where
  "XXH64_stripes 0 v p = v"
| "XXH64_stripes (Suc n) v p =
     (case v of (v1, v2, v3, v4) \<Rightarrow>
        XXH64_stripes n
          (XXH64_round v1 (read_le (take 8 p)),
           XXH64_round v2 (read_le (take 8 (drop 8 p))),
           XXH64_round v3 (read_le (take 8 (drop 16 p))),
           XXH64_round v4 (read_le (take 8 (drop 24 p))))
          (drop 32 p))"

primrec XXH64_words :: "nat \<Rightarrow> 64 word \<Rightarrow> string \<Rightarrow> 64 word" where
  "XXH64_words 0 h p = h"
| "XXH64_words (Suc n) h p =
     XXH64_words n
       (word_rotl 27 (h XOR XXH64_round 0 (read_le (take 8 p))) * PRIME64_1 + PRIME64_4)
       (drop 8 p)"

definition XXH64_finalize :: "64 word \<Rightarrow> string \<Rightarrow> 64 word" where
  "XXH64_finalize h p =
     (let h1 = XXH64_words (length p div 8) h p;
          p1 = drop (8 * (length p div 8)) p;
          h2 = (if 4 \<le> length p1
                then word_rotl 23 (h1 XOR read_le (take 4 p1) * PRIME64_1) * PRIME64_2
                     + PRIME64_3
                else h1);
          p2 = (if 4 \<le> length p1 then drop 4 p1 else p1);
          h3 = fold (\<lambda>c h. word_rotl 11 (h XOR of_nat (of_char c) * PRIME64_5) * PRIME64_1)
                    p2 h2;
          h4 = (h3 XOR drop_bit 33 h3) * PRIME64_2;
          h5 = (h4 XOR drop_bit 29 h4) * PRIME64_3
      in h5 XOR drop_bit 32 h5)"

definition XXH64 :: "string \<Rightarrow> 64 word \<Rightarrow> 64 word" where
  "XXH64 input seed =
     (let h = (if 32 \<le> length input then
                 (case XXH64_stripes (length input div 32)
                         (seed + PRIME64_1 + PRIME64_2, seed + PRIME64_2, seed,
                          seed - PRIME64_1)
                         input of
                    (v1, v2, v3, v4) \<Rightarrow>
                      XXH64_mergeRound
                        (XXH64_mergeRound
                           (XXH64_mergeRound
                              (XXH64_mergeRound
                                 (word_rotl 1 v1 + word_rotl 7 v2 + word_rotl 12 v3
                                  + word_rotl 18 v4)
                                 v1) v2) v3) v4)
               else seed + PRIME64_5)
      in XXH64_finalize (h + of_nat (length input)) (drop (32 * (length input div 32)) input))"

section \<open>The handlers\<close>

text \<open>
  Every handler that calls back into \<^verbatim>\<open>define_type\<close> takes that function as its first
  argument \<open>dt\<close>; \<open>define_type\<close> below ties the knot.
\<close>

definition is_recursive_field :: "Context \<Rightarrow> Cursor \<Rightarrow> bool" where
  "is_recursive_field ctx field \<longleftrightarrow>
     type_kind (type field) = POINTER \<and>
     type_spelling (get_pointee (type field)) =
       type_spelling (type (cursor ctx (semantic_parent field)))"

text \<open>
  \<^verbatim>\<open>define_type(field.get_definition(), bv)\<close>: without a definition the argument is
  \<^verbatim>\<open>None\<close>, and the first line of \<^verbatim>\<open>define_type\<close> raises on \<^verbatim>\<open>node.type\<close>.
\<close>

definition define_definition :: "handler \<Rightarrow> Context \<Rightarrow> Cursor \<Rightarrow> BinaryView \<Rightarrow> resolved outcome" where
  "define_definition dt ctx field bv =
     (case get_definition field of
        None \<Rightarrow> Raises AttributeError bv
      | Some d \<Rightarrow> dt (cursor ctx d) bv)"

subsection \<open>Enumerations, variables, typedefs\<close>

text \<open>
  The loop of \<^verbatim>\<open>enum_decl\<close> over the children of the node stands before the \<^verbatim>\<open>try\<close>.
  libclang's \<^verbatim>\<open>enum_value\<close> asserts that the cursor is an enum constant: a child of
  another kind (an attribute of the enum) raises \<^verbatim>\<open>AssertionError\<close> before anything is
  registered.
\<close>

fun enum_members ::
  "Cursor list \<Rightarrow> (string \<times> int) list \<Rightarrow> BinaryView \<Rightarrow> (string \<times> int) list outcome" where
  "enum_members [] enum bv = Returns enum bv"
| "enum_members (enum_member # enum_members') enum bv =
     (if kind enum_member = ENUM_CONSTANT_DECL
      then enum_members enum_members'
             (enum @ [(spelling enum_member, enum_value enum_member)]) bv
      else Raises AssertionError bv)"

definition enum_decl :: "Context \<Rightarrow> Cursor \<Rightarrow> BinaryView \<Rightarrow> resolved outcome" where
  "enum_decl ctx node bv =
     and_then (enum_members (map (cursor ctx) (get_children node)) [] bv)
       (\<lambda>enum bv1.
          let enum_name = (if spelling node \<noteq> [] then spelling node
                           else type_spelling (type node))
          in Returns (Some (spelling node, EnumerationType enum))
                     (define_user_type enum_name (EnumerationType enum) bv1))"

definition var_decl :: "Context \<Rightarrow> Cursor \<Rightarrow> BinaryView \<Rightarrow> resolved outcome" where
  "var_decl ctx node bv =
     and_then (parse_type_string ctx (type_spelling (type node) @ '' '' @ spelling node) bv)
       (\<lambda>(var_type, name) bv1.
          Returns (Some (name, var_type)) (define_user_type name var_type bv1))"

text \<open>
  In \<^verbatim>\<open>typedef_decl\<close> a parse that fails without binding \<^verbatim>\<open>name\<close> and \<^verbatim>\<open>var_type\<close>
  reaches the final \<^verbatim>\<open>try\<close> with both unbound: the \<^verbatim>\<open>UnboundLocalError\<close> is caught
  there and the function returns \<^verbatim>\<open>None\<close>.  The call
  \<^verbatim>\<open>bv.define_user_type(underlying_typedef_type_string)\<close> lacks the type argument of
  the method and raises \<^verbatim>\<open>TypeError\<close> inside the handler of the first \<^verbatim>\<open>try\<close>.
\<close>

definition typedef_decl :: "Context \<Rightarrow> Cursor \<Rightarrow> BinaryView \<Rightarrow> resolved outcome" where
  "typedef_decl ctx node bv =
     (if spelling node \<noteq> [] \<and> truthy ctx (get_type_by_name bv (spelling node))
      then Returns (map_option (\<lambda>t. (spelling node, t)) (get_type_by_name bv (spelling node))) bv
      else if type_spelling (underlying_typedef_type node) = [] then
        (case parser ctx bv (type_spelling (type node) @ '' '' @ spelling node) of
           Inl e \<Rightarrow> Returns None bv
         | Inr (var_type, name) \<Rightarrow>
             Returns (Some (name, var_type)) (define_user_type name var_type bv))
      else
        (let underlying_typedef_type_string =
               remove_compiler_directives (type_spelling (underlying_typedef_type node))
         in case parser ctx bv underlying_typedef_type_string of
              Inr (var_type, name) \<Rightarrow>
                Returns (Some (spelling node, var_type))
                        (define_user_type (spelling node) var_type bv)
            | Inl se \<Rightarrow>
                if contains se ''syntax error'' then
                  if endswith (spelling node) ''_t'' then
                    (let altered_spelling = butlast (spelling node) @ ''T''
                     in and_then
                          (parse_type_string ctx
                             (underlying_typedef_type_string @ '' '' @ altered_spelling) bv)
                          (\<lambda>(var_type, name) bv1.
                             Returns (Some (name, var_type))
                                     (define_user_type name var_type bv1)))
                  else if contains se ''is not defined'' then Raises TypeError bv
                  else Returns None bv
                else Returns None bv))"

subsection \<open>Anonymous aggregates, structures and fields\<close>

fun anonymous_fields ::
  "handler \<Rightarrow> Context \<Rightarrow> Cursor list \<Rightarrow> (BnType \<times> string) list \<Rightarrow> BinaryView \<Rightarrow>
   (BnType \<times> string) list outcome" where
  "anonymous_fields dt ctx [] members bv = Returns members bv"
| "anonymous_fields dt ctx (field # fs) members bv =
     and_then
       (case get_type_by_name bv (spelling field) of
          None \<Rightarrow> unpack (define_definition dt ctx field bv)
                   (\<lambda>field_name t bv1. Returns (t, field_name) bv1)
        | Some bn_field_type \<Rightarrow>
            if truth ctx bn_field_type then Returns (bn_field_type, spelling field) bv
            else unpack (define_definition dt ctx field bv)
                   (\<lambda>field_name t bv1. Returns (t, field_name) bv1))
       (\<lambda>member bv1. anonymous_fields dt ctx fs (members @ [member]) bv1)"

definition define_anonymous_type :: "handler \<Rightarrow> Context \<Rightarrow> Cursor \<Rightarrow> BinaryView \<Rightarrow> resolved outcome" where
  "define_anonymous_type dt ctx node bv =
     (let struct_name = ''anon_'' @ xxh64_hexdigest ctx (type_spelling (type node))
      in and_then (anonymous_fields dt ctx (get_fields ctx (type node)) [] bv)
           (\<lambda>members bv1.
              Returns (Some (struct_name,
                         StructureType (get_size (type node)) (get_align (type node)) members
                           (type_kind (type node) = ELABORATED \<and>
                            kind (get_declaration ctx (get_named_type (type node))) = UNION_DECL)))
                      bv1))"

fun struct_fields ::
  "handler \<Rightarrow> Context \<Rightarrow> Cursor list \<Rightarrow> (BnType \<times> string) list \<Rightarrow> BinaryView \<Rightarrow>
   (BnType \<times> string) list outcome" where
  "struct_fields dt ctx [] members bv = Returns members bv"
| "struct_fields dt ctx (field # fs) members bv =
     and_then
       (if is_recursive_field ctx field then
          (let forward_decl_struct_name =
                 spelling (get_declaration ctx (get_pointee (type field)));
               bv1 = define_user_type forward_decl_struct_name Structure bv
           in case get_type_by_name bv1 forward_decl_struct_name of
                None \<Rightarrow> Raises AttributeError bv1
              | Some t \<Rightarrow> Returns (t, forward_decl_struct_name) bv1)
        else
          (case get_type_by_name bv (spelling field) of
             None \<Rightarrow> unpack (define_definition dt ctx field bv)
                      (\<lambda>var_name t bv1. Returns (t, spelling field) bv1)
           | Some var_type \<Rightarrow>
               if truth ctx var_type then Returns (var_type, spelling field) bv
               else unpack (define_definition dt ctx field bv)
                      (\<lambda>var_name t bv1. Returns (t, spelling field) bv1)))
       (\<lambda>member bv1. struct_fields dt ctx fs (members @ [member]) bv1)"

definition struct_decl :: "handler \<Rightarrow> Context \<Rightarrow> Cursor \<Rightarrow> BinaryView \<Rightarrow> resolved outcome" where
  "struct_decl dt ctx node bv =
     (let struct_name = (if spelling node \<noteq> [] then spelling node
                         else type_spelling (type node));
          bv1 = define_user_type struct_name Structure bv
      in and_then
           (if is_definition node
            then struct_fields dt ctx (get_fields ctx (type node)) [] bv1
            else Returns [] bv1)
           (\<lambda>members bv2.
              let struct = StructureType (get_size (type node)) (get_align (type node))
                             members (kind node = UNION_DECL)
              in Returns (Some (struct_name, struct))
                         (define_user_type struct_name struct bv2)))"

text \<open>\<^verbatim>\<open>try: ... except Exception: log\<close>: the exception is dropped, the function returns \<^verbatim>\<open>None\<close>.\<close>

fun except_Exception :: "resolved outcome \<Rightarrow> resolved outcome" where
  "except_Exception (Raises e bv) = Returns None bv"
| "except_Exception r = r"

definition field_decl :: "handler \<Rightarrow> Context \<Rightarrow> Cursor \<Rightarrow> BinaryView \<Rightarrow> resolved outcome" where
  "field_decl dt ctx node bv =
     except_Exception
       (if \<not> is_recursive_field ctx node then
          (if check_if_base_type (type node) then
             and_then
               (parse_type_string ctx (type_spelling (type node) @ '' '' @ spelling node) bv)
               (\<lambda>(field_type, field_name) bv1. Returns (Some (field_name, field_type)) bv1)
           else
             unpack (dt node bv)
               (\<lambda>field_name field_type bv1. Returns (Some (field_name, field_type)) bv1))
        else Returns None bv)"

subsection \<open>Functions\<close>

text \<open>The three parameter loops of \<^verbatim>\<open>function_decl\<close>, one for each shape of the node.\<close>

fun prototype_parameters ::
  "handler \<Rightarrow> Context \<Rightarrow> Type list \<Rightarrow> (BnType \<times> string) list \<Rightarrow> BinaryView \<Rightarrow>
   (BnType \<times> string) list outcome" where
  "prototype_parameters dt ctx [] func_params bv = Returns func_params bv"
| "prototype_parameters dt ctx (param_type # arg_types) func_params bv =
     and_then
       (if type_kind param_type = INCOMPLETEARRAY then
          and_then
            (if check_if_base_type (get_array_element_type param_type) then
               parse_type_string ctx (type_spelling (get_array_element_type param_type)) bv
             else if type_kind (get_array_element_type param_type) = POINTER then
               unpack
                 (dt (get_declaration ctx (get_pointee (get_array_element_type param_type))) bv)
                 (\<lambda>pointee_name pointee_type bv1. Returns (PointerType pointee_type, []) bv1)
             else
               unpack (dt (get_declaration ctx (get_array_element_type param_type)) bv)
                 (\<lambda>var_name arr_var_type bv1. Returns (arr_var_type, var_name) bv1))
            (\<lambda>(arr_var_type, var_name) bv1.
               Returns (ArrayType arr_var_type INCOMPLETE_ARRAY_ARBITRARY_SIZE, var_name) bv1)
        else
          parse_type_string ctx (remove_compiler_directives (type_spelling param_type)) bv)
       (\<lambda>p bv1. prototype_parameters dt ctx arg_types (func_params @ [p]) bv1)"

fun pointee_parameters ::
  "Context \<Rightarrow> Type list \<Rightarrow> (BnType \<times> string) list \<Rightarrow> BinaryView \<Rightarrow>
   (BnType \<times> string) list outcome" where
  "pointee_parameters ctx [] func_params bv = Returns func_params bv"
| "pointee_parameters ctx (param_type # arg_types) func_params bv =
     and_then
       (parse_type_string ctx
          (if type_kind param_type = INCOMPLETEARRAY
           then replace (remove_compiler_directives (type_spelling param_type)) ''[]'' ''[4096]''
           else remove_compiler_directives (type_spelling param_type)) bv)
       (\<lambda>p bv1. pointee_parameters ctx arg_types (func_params @ [p]) bv1)"

fun declared_parameters ::
  "handler \<Rightarrow> Context \<Rightarrow> Cursor list \<Rightarrow> (BnType \<times> string) list \<Rightarrow> BinaryView \<Rightarrow>
   (BnType \<times> string) list outcome" where
  "declared_parameters dt ctx [] func_params bv = Returns func_params bv"
| "declared_parameters dt ctx (param # params) func_params bv =
     unpack (dt param bv)
       (\<lambda>var_name var_type bv1.
          declared_parameters dt ctx params (func_params @ [(var_type, var_name)]) bv1)"

text \<open>The scan of the tokens for a calling convention: the last keyword found decides.\<close>

definition calling_convention :: "(TokenKind \<times> string) list \<Rightarrow> CallingConvention" where
  "calling_convention tokens =
     fold (\<lambda>(token_kind, token_spelling) function_calling_convention.
             if token_kind = KEYWORD then
               (if token_spelling = ''__cdecl'' then cdecl_calling_convention
                else if token_spelling = ''__fastcall'' then fastcall_calling_convention
                else if token_spelling = ''__stdcall'' then stdcall_calling_convention
                else function_calling_convention)
             else function_calling_convention)
          tokens default_calling_convention"

text \<open>
  libclang's \<^verbatim>\<open>argument_types\<close> and \<^verbatim>\<open>is_function_variadic\<close> assert that the type is a
  function prototype; \<^verbatim>\<open>function_decl\<close> calls them before its loops.
\<close>

definition function_decl :: "handler \<Rightarrow> Context \<Rightarrow> Cursor \<Rightarrow> BinaryView \<Rightarrow> resolved outcome" where
  "function_decl dt ctx node bv =
     and_then
       (if kind node = TYPEDEF_DECL then
          (let prototype =
                 (if type_kind (type node) = TYPEDEF then
                    (if type_kind (underlying_typedef_type node) = POINTER
                     then get_pointee (underlying_typedef_type node)
                     else underlying_typedef_type node)
                  else type node)
           in if type_kind prototype \<noteq> FUNCTIONPROTO then Raises AssertionError bv
              else
                and_then (prototype_parameters dt ctx (argument_types prototype) [] bv)
                  (\<lambda>func_params bv1.
                     Returns (func_params, get_result prototype, is_function_variadic prototype)
                             bv1))
        else if type_kind (type node) = POINTER then
          (if type_kind (get_pointee (type node)) \<noteq> FUNCTIONPROTO
           then Raises AssertionError bv
           else
             and_then (pointee_parameters ctx (argument_types (get_pointee (type node))) [] bv)
               (\<lambda>func_params bv1.
                  Returns (func_params, get_result (get_pointee (type node)),
                           is_function_variadic (get_pointee (type node))) bv1))
        else if type_kind (type node) = FUNCTIONNOPROTO then
          Returns ([], get_result (type node), False) bv
        else if type_kind (type node) \<noteq> FUNCTIONPROTO then Raises AssertionError bv
        else
          and_then
            (declared_parameters dt ctx (map (cursor ctx) (get_arguments node)) [] bv)
            (\<lambda>func_params bv1.
               Returns (func_params, get_result (type node),
                        is_function_variadic (type node)) bv1))
       (\<lambda>(func_params, node_result_type, variable_arguments) bv1.
          and_then
            (parse_type_string ctx
               (remove_compiler_directives (type_spelling node_result_type)) bv1)
            (\<lambda>(func_return_val_type, ret_name) bv2.
               let function_type =
                     FunctionType func_return_val_type func_params
                       (Some (calling_convention (get_tokens node))) variable_arguments
               in Returns (Some (spelling node, function_type))
                          (define_user_type (spelling node) function_type bv2)))"

definition functionproto_type :: "handler \<Rightarrow> Context \<Rightarrow> Cursor \<Rightarrow> BinaryView \<Rightarrow> resolved outcome" where
  "functionproto_type dt ctx node bv =
     (if kind node = TYPEDEF_DECL \<or> kind node = PARM_DECL \<or> \<not> is_definition node
      then function_decl dt ctx node bv
      else Returns None bv)"

subsection \<open>Pointers\<close>

text \<open>
  The loop of \<^verbatim>\<open>pointer_type\<close> that walks a chain of pointers, counting, until the type
  is no pointer.
\<close>

fun pointer_depth :: "Type \<Rightarrow> nat" where
  "pointer_depth (Pointer s p) = Suc (pointer_depth p)"
| "pointer_depth t = 0"

function nested_pointers :: "nat \<Rightarrow> Type \<Rightarrow> nat \<times> Type" where
  "nested_pointers nested_pointer_count current_pointer_type =
     (if type_kind current_pointer_type = POINTER
      then nested_pointers (nested_pointer_count + 1) (get_pointee current_pointer_type)
      else (nested_pointer_count, current_pointer_type))"
  by pat_completeness auto
termination
proof (relation "measure (\<lambda>(n, t). if type_kind t = POINTER then Suc (pointer_depth t) else 0)")
  show "wf (measure (\<lambda>(n, t). if type_kind t = POINTER then Suc (pointer_depth t) else 0))"
    by simp
next
  fix n :: nat and t :: Type
  assume "type_kind t = POINTER"
  then show "((n + 1, get_pointee t), (n, t))
      \<in> measure (\<lambda>(n, t). if type_kind t = POINTER then Suc (pointer_depth t) else 0)"
    by (cases t) auto
qed

declare nested_pointers.simps [simp del]

text \<open>
  The part of \<^verbatim>\<open>pointer_type\<close> that builds \<^verbatim>\<open>pointer\<close> from the pointee type.  In the
  chain of nested pointers, a base that is no primitive is handed to \<^verbatim>\<open>define_type\<close>
  as a type where a cursor is expected, and the first line there raises on \<^verbatim>\<open>node.type\<close>.
\<close>

definition pointer_to ::
  "handler \<Rightarrow> Context \<Rightarrow> Cursor \<Rightarrow> Type \<Rightarrow> BinaryView \<Rightarrow> BnType outcome" where
  "pointer_to dt ctx node pointee_type bv =
     (if check_if_base_type pointee_type then
        and_then (parse_type_string ctx (void_spelling (type_spelling pointee_type)) bv)
          (\<lambda>(bn_pointee_type, name) bv1. Returns (PointerType bn_pointee_type) bv1)
      else if kind (get_declaration ctx pointee_type) = NO_DECL_FOUND then
        (if type_kind pointee_type = FUNCTIONPROTO then
           unpack (function_decl dt ctx node bv)
             (\<lambda>bn_pointee_name bn_pointee_type bv1. Returns (PointerType bn_pointee_type) bv1)
         else if type_kind pointee_type = FUNCTIONNOPROTO then
           and_then
             (if check_if_base_type (get_result pointee_type) then
                and_then
                  (parse_type_string ctx
                     (void_spelling (type_spelling (get_result pointee_type))) bv)
                  (\<lambda>(bn_result_type, bn_result_name) bv1. Returns bn_result_type bv1)
              else
                unpack (dt (get_declaration ctx (get_result pointee_type)) bv)
                  (\<lambda>bn_result_name bn_result_type bv1. Returns bn_result_type bv1))
             (\<lambda>bn_result_type bv1.
                Returns (PointerType (FunctionType bn_result_type [] None False)) bv1)
         else if type_kind pointee_type = POINTER then
           and_then
             (if check_if_base_type (get_pointee pointee_type) then
                and_then
                  (parse_type_string ctx
                     (void_spelling (type_spelling (get_pointee pointee_type))) bv)
                  (\<lambda>(bn_pointee_type, bn_pointee_name) bv1. Returns bn_pointee_type bv1)
              else if type_kind (get_pointee pointee_type) = POINTER then
                (case nested_pointers 1 (get_pointee pointee_type) of
                   (nested_pointer_count, current_pointer_type) \<Rightarrow>
                     and_then
                       (if check_if_base_type current_pointer_type then
                          and_then
                            (parse_type_string ctx (type_spelling current_pointer_type) bv)
                            (\<lambda>(bn_pointee_type, bn_pointee_name) bv1.
                               Returns bn_pointee_type bv1)
                        else Raises AttributeError bv)
                       (\<lambda>bn_pointee_type bv1.
                          Returns
                            (PointerType
                               ((PointerType ^^ nested_pointer_count)
                                  (PointerType bn_pointee_type))) bv1))
              else if kind (get_declaration ctx (get_pointee pointee_type)) = NO_DECL_FOUND then
                and_then (parse_type_string ctx (type_spelling pointee_type) bv)
                  (\<lambda>(bn_pointee_type, bn_pointee_name) bv1. Returns bn_pointee_type bv1)
              else
                unpack (dt (get_declaration ctx (get_pointee pointee_type)) bv)
                  (\<lambda>bn_pointee_name bn_pointee_type bv1. Returns bn_pointee_type bv1))
             (\<lambda>bn_pointee_type bv1. Returns (PointerType bn_pointee_type) bv1)
         else
           and_then
             (parse_type_string ctx (type_spelling (underlying_typedef_type node)) bv)
             (\<lambda>(bn_pointee_type, bn_pointee_name) bv1.
                Returns (PointerType bn_pointee_type) bv1))
      else
        (case get_type_by_name bv (spelling (get_declaration ctx pointee_type)) of
           None \<Rightarrow>
             unpack (dt (get_declaration ctx pointee_type) bv)
               (\<lambda>bn_pointee_name bn_pointee_type bv1.
                  Returns (PointerType bn_pointee_type) bv1)
         | Some bn_pointee_type \<Rightarrow> Returns (PointerType bn_pointee_type) bv))"

definition pointer_type :: "handler \<Rightarrow> Context \<Rightarrow> Cursor \<Rightarrow> BinaryView \<Rightarrow> resolved outcome" where
  "pointer_type dt ctx node bv =
     (if type_kind (type node) = TYPEDEF \<or> type_kind (type node) = POINTER then
        and_then
          (pointer_to dt ctx node
             (if type_kind (type node) = TYPEDEF
              then get_pointee (underlying_typedef_type node)
              else get_pointee (type node)) bv)
          (\<lambda>pointer bv1.
             Returns (Some (spelling node, pointer))
                     (define_user_type (spelling node) pointer bv1))
      else Returns None bv)"

subsection \<open>Arrays\<close>

text \<open>
  In \<^verbatim>\<open>constantarray_type\<close> the branches for an element that is a pointer or an array
  either build \<^verbatim>\<open>array\<close> or choose the cursor \<^verbatim>\<open>element_type_node\<close> to resolve;
  \<^verbatim>\<open>if not array:\<close> then resolves the cursor, which is still \<^verbatim>\<open>None\<close> when an array
  was built that Python counts as false.
\<close>

definition element_array ::
  "handler \<Rightarrow> Context \<Rightarrow> Cursor \<Rightarrow> BnType option \<Rightarrow> Cursor option \<Rightarrow> BinaryView \<Rightarrow>
   BnType outcome" where
  "element_array dt ctx node array element_type_node bv =
     (if \<not> truthy ctx array then
        (case element_type_node of
           None \<Rightarrow> Raises AttributeError bv
         | Some c \<Rightarrow>
             unpack (dt c bv)
               (\<lambda>bn_element_name bn_element_type bv1.
                  Returns (ArrayType bn_element_type (get_array_size (type node))) bv1))
      else (case array of None \<Rightarrow> Raises AttributeError bv | Some a \<Rightarrow> Returns a bv))"

definition constant_array ::
  "handler \<Rightarrow> Context \<Rightarrow> Cursor \<Rightarrow> BinaryView \<Rightarrow> BnType outcome" where
  "constant_array dt ctx node bv =
     (let element_type = get_array_element_type (type node);
          array_size = get_array_size (type node)
      in if truthy ctx (get_type_by_name bv (type_spelling element_type)) then
           (case get_type_by_name bv (type_spelling element_type) of
              None \<Rightarrow> Raises AttributeError bv
            | Some bn_element_type \<Rightarrow> Returns (ArrayType bn_element_type array_size) bv)
         else if is_anonymous (get_declaration ctx element_type) then
           unpack (define_anonymous_type dt ctx (get_declaration ctx element_type) bv)
             (\<lambda>anonymous_name bn_anonymous_type bv1.
                Returns (ArrayType bn_anonymous_type array_size) bv1)
         else if check_if_base_type element_type then
           and_then (parse_type_string ctx (type_spelling element_type) bv)
             (\<lambda>(var_type, name) bv1. Returns (ArrayType var_type array_size) bv1)
         else if type_kind element_type = POINTER then
           (if check_if_base_type (get_pointee element_type) then
              and_then (parse_type_string ctx (type_spelling (get_pointee element_type)) bv)
                (\<lambda>(bn_element_type, bn_element_name) bv1.
                   element_array dt ctx node
                     (Some (ArrayType (PointerType bn_element_type) array_size)) None bv1)
            else
              element_array dt ctx node None
                (Some (get_declaration ctx (get_pointee element_type))) bv)
         else if type_kind element_type = CONSTANTARRAY then
           (if check_if_base_type (get_array_element_type element_type) then
              and_then
                (parse_type_string ctx
                   (type_spelling (get_array_element_type element_type)) bv)
                (\<lambda>(bn_element_type, bn_element_name) bv1.
                   element_array dt ctx node
                     (Some (ArrayType
                              (ArrayType bn_element_type (get_array_size element_type))
                              array_size)) None bv1)
            else
              element_array dt ctx node None
                (Some (get_declaration ctx (get_array_element_type element_type))) bv)
         else
           element_array dt ctx node None (Some (get_declaration ctx element_type)) bv)"

definition constantarray_type :: "handler \<Rightarrow> Context \<Rightarrow> Cursor \<Rightarrow> BinaryView \<Rightarrow> resolved outcome" where
  "constantarray_type dt ctx node bv =
     and_then (constant_array dt ctx node bv)
       (\<lambda>array bv1.
          Returns (Some (spelling node, array)) (define_user_type (spelling node) array bv1))"

definition incompletearray_type :: "handler \<Rightarrow> Context \<Rightarrow> Cursor \<Rightarrow> BinaryView \<Rightarrow> resolved outcome" where
  "incompletearray_type dt ctx node bv =
     (let bn_array_element_type = get_array_element_type (type node)
      in and_then
           (if check_if_base_type bn_array_element_type then
              and_then (parse_type_string ctx (type_spelling bn_array_element_type) bv)
                (\<lambda>(var_type, var_name) bv1. Returns var_type bv1)
            else if type_kind bn_array_element_type = POINTER then
              and_then
                (if check_if_base_type (get_pointee bn_array_element_type) then
                   and_then
                     (parse_type_string ctx
                        (void_spelling (type_spelling (get_pointee bn_array_element_type))) bv)
                     (\<lambda>(pointee_var_type, pointee_var_name) bv1. Returns pointee_var_type bv1)
                 else
                   unpack
                     (dt (get_declaration ctx (get_pointee bn_array_element_type)) bv)
                     (\<lambda>pointee_var_name pointee_var_type bv1. Returns pointee_var_type bv1))
                (\<lambda>pointee_var_type bv1. Returns (PointerType pointee_var_type) bv1)
            else
              unpack (dt (get_declaration ctx bn_array_element_type) bv)
                (\<lambda>var_name var_type bv1. Returns var_type bv1))
           (\<lambda>var_type bv1.
              Returns (Some (spelling node,
                             ArrayType var_type INCOMPLETE_ARRAY_ARBITRARY_SIZE)) bv1))"

subsection \<open>The dispatcher\<close>

definition define_type_step :: "handler \<Rightarrow> Context \<Rightarrow> Cursor \<Rightarrow> BinaryView \<Rightarrow> resolved outcome" where
  "define_type_step dt ctx node bv =
     (case (if spelling node \<noteq> [] then get_type_by_name bv (type_spelling (type node))
            else None) of
        Some current_type \<Rightarrow> Returns (Some (spelling node, current_type)) bv
      | None \<Rightarrow>
          if check_if_base_type (type node) then
            and_then
              (parse_type_string ctx (type_spelling (type node) @ '' '' @ spelling node) bv)
              (\<lambda>(var_type, var_name) bv1. Returns (Some (var_name, var_type)) bv1)
          else if is_anonymous node then define_anonymous_type dt ctx node bv
          else if type_kind (type node) = ELABORATED then
            dt (get_declaration ctx (type node)) bv
          else if type_kind (type node) = CONSTANTARRAY then constantarray_type dt ctx node bv
          else if type_kind (type node) = INCOMPLETEARRAY then
            incompletearray_type dt ctx node bv
          else if type_kind (type node) = FUNCTIONPROTO then functionproto_type dt ctx node bv
          else if type_kind (type node) = POINTER then pointer_type dt ctx node bv
          else if kind node = TYPEDEF_DECL then
            (if type_kind (type node) = TYPEDEF \<and>
                type_kind (underlying_typedef_type node) = FUNCTIONPROTO
             then function_decl dt ctx node bv
             else if type_kind (type node) = TYPEDEF \<and>
                     type_kind (underlying_typedef_type node) = POINTER
             then pointer_type dt ctx node bv
             else typedef_decl ctx node bv)
          else if kind node = PARM_DECL then
            (if type_kind (type node) = TYPEDEF then typedef_decl ctx node bv
             else Returns None bv)
          else if kind node = VAR_DECL then var_decl ctx node bv
          else if kind node = FUNCTION_DECL then function_decl dt ctx node bv
          else if kind node = ENUM_DECL then enum_decl ctx node bv
          else if kind node = STRUCT_DECL then struct_decl dt ctx node bv
          else if kind node = FIELD_DECL then field_decl dt ctx node bv
          else if kind node = UNION_DECL then struct_decl dt ctx node bv
          else Returns None bv)"

text \<open>
  \<open>define_type n\<close> is \<^verbatim>\<open>define_type\<close> under an interpreter that allows \<open>n\<close> nested calls
  of it: the call that would nest deeper raises \<^verbatim>\<open>RecursionError\<close>.  (Python counts every
  frame, those of the handlers and of the libraries too; the model counts the calls of
  \<^verbatim>\<open>define_type\<close>, through which every recursion of the module passes.)
\<close>

primrec define_type :: "nat \<Rightarrow> Context \<Rightarrow> Cursor \<Rightarrow> BinaryView \<Rightarrow> resolved outcome" where
  "define_type 0 ctx node bv = Raises RecursionError bv"
| "define_type (Suc n) ctx node bv = define_type_step (define_type n ctx) ctx node bv"

section \<open>The pass over the top-level declarations\<close>

text \<open>
  \<^verbatim>\<open>pre_process.pp\<close> seeds the registry from the configuration of the library, parses
  the header, and calls \<^verbatim>\<open>define_type\<close> on every child of the root cursor.  The export
  of the registered types into a type library that follows does not write the registry.
\<close>

record Library =
  pre_load_definition :: "(string \<times> string) list"
  forward_declarations_struct :: "string list"
  forward_declarations_typedef :: "string list"

definition ntdll :: Library where
  "ntdll =
     \<lparr>pre_load_definition = [(''bool'', ''_Bool'')],
      forward_declarations_struct =
        [''_RTL_CRITICAL_SECTION'', ''_RTL_CRITICAL_SECTION_DEBUG'', ''IRpcChannelBuffer''],
      forward_declarations_typedef =
        [''_RTL_CRITICAL_SECTION_DEBUG* PRTL_CRITICAL_SECTION_DEBUG'']\<rparr>"

fun parse_and_define :: "Context \<Rightarrow> string list \<Rightarrow> BinaryView \<Rightarrow> unit outcome" where
  "parse_and_define ctx [] bv = Returns () bv"
| "parse_and_define ctx (text # texts) bv =
     and_then (parse_type_string ctx text bv)
       (\<lambda>(t, n) bv1. parse_and_define ctx texts (define_user_type n t bv1))"

definition pre_define_types :: "Context \<Rightarrow> Library \<Rightarrow> BinaryView \<Rightarrow> unit outcome" where
  "pre_define_types ctx library bv =
     and_then
       (parse_and_define ctx
          (map (\<lambda>(var_type, var_name). var_type @ '' '' @ var_name)
               (pre_load_definition library)) bv)
       (\<lambda>u bv1.
          parse_and_define ctx
            (map (\<lambda>forward_decl_typedef. forward_decl_typedef @ '';'')
                 (forward_declarations_typedef library))
            (fold (\<lambda>forward_decl_struct. define_user_type forward_decl_struct Structure)
                  (forward_declarations_struct library) bv1))"

fun define_nodes :: "handler \<Rightarrow> Cursor list \<Rightarrow> BinaryView \<Rightarrow> unit outcome" where
  "define_nodes dt [] bv = Returns () bv"
| "define_nodes dt (node # nodes) bv =
     and_then (dt node bv) (\<lambda>r bv1. define_nodes dt nodes bv1)"

definition pp :: "nat \<Rightarrow> Context \<Rightarrow> Cursor \<Rightarrow> BinaryView \<Rightarrow> unit outcome" where
  "pp n ctx root_node bv =
     and_then (pre_define_types ctx ntdll bv)
       (\<lambda>u bv1.
          define_nodes (define_type n ctx) (map (cursor ctx) (get_children root_node)) bv1)"

section \<open>A small syntax tree and a small parser for the examples\<close>

text \<open>
  The examples below run the handlers on the declarations of this header:
  \<^verbatim>\<open>
  struct _NODE { int val; struct _NODE *next; };
  int ****a;
  int m[2][3][4];
  int grid[2][3];
  extern int x[][3];
  extern int y[];
  extern int *pa[];
  struct T;
  struct T *T;
  typedef unsigned long DWORD;
  typedef unsigned long long size_t;
  struct { } s1;  struct { } s2;
  typedef enum { RED, GREEN } Color;
  typedef enum __attribute__((packed)) { RED, GREEN } Packed;
  int main(void) { return 0; }
  \<close>
  The parser of the examples knows \<^verbatim>\<open>int\<close>, \<^verbatim>\<open>char\<close>, \<^verbatim>\<open>void\<close>, \<^verbatim>\<open>bool\<close>, the
  names of the registry and pointers to these, followed by at most one name; it is not
  Binary Ninja's, and the theorems about all inputs are stated for every context.  The
  digest of the examples is XXH64 with the seed 0.
\<close>

definition decl :: "CursorKind \<Rightarrow> string \<Rightarrow> Type \<Rightarrow> Cursor" where
  "decl k s t =
     \<lparr>kind = k, spelling = s, type = t, is_anonymous = False, is_definition = True,
      semantic_parent = 0, underlying_typedef_type = Invalid, get_children = [],
      get_arguments = [], get_tokens = [], get_definition = None, enum_value = 0\<rparr>"

definition int_type :: Type where
  "int_type = Builtin INT' ''int''"

definition NODE_type :: Type where
  "NODE_type = Record ''struct _NODE'' 1 [2, 3] 16 8"

definition NODE_decl :: Cursor where
  "NODE_decl = decl STRUCT_DECL ''_NODE'' NODE_type"

definition val_field :: Cursor where
  "val_field = (decl FIELD_DECL ''val'' int_type)\<lparr>semantic_parent := 1, get_definition := Some 2\<rparr>"

definition next_field :: Cursor where
  "next_field =
     (decl FIELD_DECL ''next'' (Pointer ''struct _NODE *'' (Elaborated ''struct _NODE'' NODE_type)))
       \<lparr>semantic_parent := 1, get_definition := Some 3\<rparr>"

definition a_decl :: Cursor where
  "a_decl =
     decl VAR_DECL ''a''
       (Pointer ''int ****'' (Pointer ''int ***'' (Pointer ''int **'' (Pointer ''int *'' int_type))))"

definition m_decl :: Cursor where
  "m_decl =
     decl VAR_DECL ''m''
       (ConstantArray ''int [2][3][4]''
          (ConstantArray ''int [3][4]'' (ConstantArray ''int [4]'' int_type 4) 3) 2)"

definition grid_decl :: Cursor where
  "grid_decl =
     decl VAR_DECL ''grid'' (ConstantArray ''int [2][3]'' (ConstantArray ''int [3]'' int_type 3) 2)"

definition x_decl :: Cursor where
  "x_decl =
     (decl VAR_DECL ''x'' (IncompleteArray ''int [][3]'' (ConstantArray ''int [3]'' int_type 3)))
       \<lparr>is_definition := False\<rparr>"

definition y_decl :: Cursor where
  "y_decl = (decl VAR_DECL ''y'' (IncompleteArray ''int []'' int_type))\<lparr>is_definition := False\<rparr>"

definition pa_decl :: Cursor where
  "pa_decl =
     (decl VAR_DECL ''pa'' (IncompleteArray ''int *[]'' (Pointer ''int *'' int_type)))
       \<lparr>is_definition := False\<rparr>"

definition T_type :: Type where
  "T_type = Record ''struct T'' 8 [] (- 2) (- 2)"

definition T_struct :: Cursor where
  "T_struct = (decl STRUCT_DECL ''T'' T_type)\<lparr>is_definition := False\<rparr>"

definition T_var :: Cursor where
  "T_var = decl VAR_DECL ''T'' (Pointer ''struct T *'' (Elaborated ''struct T'' T_type))"

definition DWORD_decl :: Cursor where
  "DWORD_decl =
     (decl TYPEDEF_DECL ''DWORD'' (Typedef ''DWORD'' 10))
       \<lparr>underlying_typedef_type := Builtin ULONG ''unsigned long''\<rparr>"

definition size_t_decl :: Cursor where
  "size_t_decl =
     (decl TYPEDEF_DECL ''size_t'' (Typedef ''size_t'' 11))
       \<lparr>underlying_typedef_type := Builtin ULONGLONG ''unsigned long long''\<rparr>"

definition anonymous_struct :: "nat \<Rightarrow> string \<Rightarrow> Cursor" where
  "anonymous_struct d s = (decl STRUCT_DECL [] (Record s d [] 0 1))\<lparr>is_anonymous := True\<rparr>"

definition Color_decl :: Cursor where
  "Color_decl = (decl ENUM_DECL [] (Enum ''Color'' 14 4 4))\<lparr>get_children := [15, 16]\<rparr>"

definition Packed_decl :: Cursor where
  "Packed_decl = (decl ENUM_DECL [] (Enum ''Packed'' 20 1 1))\<lparr>get_children := [21, 15, 16]\<rparr>"

definition main_decl :: Cursor where
  "main_decl = decl FUNCTION_DECL ''main'' (FunctionProto ''int (void)'' int_type [] False)"

definition sample_cursor :: "nat \<Rightarrow> Cursor" where
  "sample_cursor i =
     (if i = 0 then (decl OTHER_CURSOR ''sample.h'' Invalid)\<lparr>get_children := [6, 8]\<rparr>
      else if i = 1 then NODE_decl
      else if i = 2 then val_field
      else if i = 3 then next_field
      else if i = 4 then a_decl
      else if i = 5 then m_decl
      else if i = 6 then x_decl
      else if i = 7 then y_decl
      else if i = 8 then T_struct
      else if i = 9 then T_var
      else if i = 10 then DWORD_decl
      else if i = 11 then size_t_decl
      else if i = 12 then anonymous_struct 12 ''struct (unnamed at sample.h:11:1)''
      else if i = 13 then anonymous_struct 13 ''struct (unnamed at sample.h:11:17)''
      else if i = 14 then Color_decl
      else if i = 15 then (decl ENUM_CONSTANT_DECL ''RED'' int_type)\<lparr>enum_value := 0\<rparr>
      else if i = 16 then (decl ENUM_CONSTANT_DECL ''GREEN'' int_type)\<lparr>enum_value := 1\<rparr>
      else if i = 17 then grid_decl
      else if i = 18 then main_decl
      else if i = 19 then (decl OTHER_CURSOR ''sample.h'' Invalid)\<lparr>get_children := [18, 8]\<rparr>
      else if i = 20 then Packed_decl
      else if i = 21 then decl PACKED_ATTR ''packed'' Invalid
      else if i = 22 then pa_decl
      else no_decl_found)"

definition sample_base :: "BinaryView \<Rightarrow> string \<Rightarrow> BnType option" where
  "sample_base bv w =
     (if w = ''int'' then Some (IntegerType 4 True)
      else if w = ''char'' then Some (IntegerType 1 True)
      else if w = ''void'' then Some VoidType
      else if w = ''bool'' then Some BoolType
      else map_option (\<lambda>t. NamedTypeReference w) (bv w))"

definition sample_type :: "BinaryView \<Rightarrow> string \<Rightarrow> BnType option" where
  "sample_type bv w =
     (let stars = length (takeWhile (\<lambda>c. c = CHR ''*'') (rev w))
      in map_option (PointerType ^^ stars) (sample_base bv (take (length w - stars) w)))"

definition sample_parser :: "BinaryView \<Rightarrow> string \<Rightarrow> string + (BnType \<times> string)" where
  "sample_parser bv text =
     (case split (if text \<noteq> [] \<and> last text = CHR '';'' then butlast text else text) of
        [w] \<Rightarrow>
          (case sample_type bv w of
             None \<Rightarrow> Inl (''syntax error: type '' @ w @ '' is not defined'')
           | Some t \<Rightarrow> Inr (t, []))
      | [w, n] \<Rightarrow>
          (case sample_type bv w of
             None \<Rightarrow> Inl (''syntax error: type '' @ w @ '' is not defined'')
           | Some t \<Rightarrow> Inr (t, n))
      | ws \<Rightarrow> Inl ''syntax error'')"

definition sample_ctx :: Context where
  "sample_ctx =
     \<lparr>cursor = sample_cursor, parser = sample_parser, truth = (\<lambda>t. True),
      xxh64 = (\<lambda>s. XXH64 s 0)\<rparr>"

text \<open>A chain of pointers over a base type, one spelling for each level.\<close>

fun pointers :: "string list \<Rightarrow> Type \<Rightarrow> Type" where
  "pointers [] b = b"
| "pointers (s # ss) b = Pointer s (pointers ss b)"

text \<open>
  A parser that accepts one text only and fails on every other with the given message,
  for the example of the retry in \<^verbatim>\<open>typedef_decl\<close>.
\<close>

definition picky_parser :: "string \<Rightarrow> BinaryView \<Rightarrow> string \<Rightarrow> string + (BnType \<times> string)" where
  "picky_parser msg bv text =
     (if text = ''unsigned long long  size_T'' then Inr (IntegerType 8 False, ''size_T'')
      else Inl msg)"

section \<open>Auxiliary facts\<close>

lemma and_then_Returns:
  "and_then m f = Returns b bv' \<Longrightarrow> \<exists>a bv1. m = Returns a bv1 \<and> f a bv1 = Returns b bv'"
  by (cases m) auto

lemmas sample_defs =
  sample_ctx_def sample_cursor_def decl_def int_type_def NODE_type_def NODE_decl_def
  val_field_def next_field_def a_decl_def m_decl_def grid_decl_def x_decl_def y_decl_def
  pa_decl_def
  T_type_def T_struct_def T_var_def DWORD_decl_def size_t_decl_def anonymous_struct_def
  Color_decl_def Packed_decl_def main_decl_def no_decl_found_def

lemmas handler_defs =
  define_type_step_def get_type_by_name_def define_user_type_def check_if_base_type_def
  base_types_def get_declaration_def get_fields_def parse_type_string_def unpack_def
  truthy_def Let_def

section \<open>The memo of the dispatcher (C2)\<close>

lemma T_var_first:
  "define_type (Suc (Suc 0)) sample_ctx T_var Map.empty =
     Returns (Some (''T'', PointerType (StructureType (- 2) (- 2) [] False)))
             [''T'' \<mapsto> PointerType (StructureType (- 2) (- 2) [] False)]"
  by (simp add: sample_defs handler_defs pointer_type_def pointer_to_def struct_decl_def
        Structure_def)

lemma T_var_second:
  "define_type (Suc (Suc 0)) sample_ctx T_var
       [''T'' \<mapsto> PointerType (StructureType (- 2) (- 2) [] False)] =
     Returns (Some (''T'', PointerType (PointerType (StructureType (- 2) (- 2) [] False))))
             [''T'' \<mapsto> PointerType (PointerType (StructureType (- 2) (- 2) [] False))]"
  by (simp add: sample_defs handler_defs pointer_type_def pointer_to_def struct_decl_def
        Structure_def)

text \<open>
  C2, as stated, fails.  \<^verbatim>\<open>define_type\<close> looks the spelling of the node's \<^emph>\<open>type\<close> up,
  not the node's name.  For the variable \<^verbatim>\<open>struct T *T;\<close> the first resolution from
  the empty registry registers a pointer under \<^verbatim>\<open>T\<close>; the second finds the name \<^verbatim>\<open>T\<close>
  registered, does not return that entry, and registers a pointer to it under \<^verbatim>\<open>T\<close>:
  the entry under the name differs after the two calls.
\<close>

theorem define_type_registered_name_counterexample:
  "spelling T_var = ''T'' \<and>
   define_type (Suc (Suc 0)) sample_ctx T_var Map.empty =
     Returns (Some (''T'', PointerType (StructureType (- 2) (- 2) [] False)))
             [''T'' \<mapsto> PointerType (StructureType (- 2) (- 2) [] False)] \<and>
   define_type (Suc (Suc 0)) sample_ctx T_var
       [''T'' \<mapsto> PointerType (StructureType (- 2) (- 2) [] False)] =
     Returns (Some (''T'', PointerType (PointerType (StructureType (- 2) (- 2) [] False))))
             [''T'' \<mapsto> PointerType (PointerType (StructureType (- 2) (- 2) [] False))] \<and>
   [''T'' \<mapsto> PointerType (StructureType (- 2) (- 2) [] False)] ''T'' \<noteq>
   [''T'' \<mapsto> PointerType (PointerType (StructureType (- 2) (- 2) [] False))] ''T''"
  using T_var_first T_var_second by (simp add: sample_defs)

text \<open>
  C2, amended: for every node whose spelling is not empty and whose type spelling is
  present in the registry, \<^verbatim>\<open>define_type\<close> returns the node's spelling with the entry
  registered under the type spelling, and leaves the registry as it was; so any further
  resolution of the node from that registry returns the same and changes nothing.
\<close>

theorem define_type_already_defined:
  assumes "spelling node \<noteq> []" and "bv (type_spelling (type node)) = Some t"
  shows "define_type (Suc n) ctx node bv = Returns (Some (spelling node, t)) bv"
  using assms by (simp add: define_type_step_def get_type_by_name_def)

theorem define_type_already_defined_witness:
  "define_type (Suc 0) sample_ctx DWORD_decl [''DWORD'' \<mapsto> IntegerType 4 False] =
     Returns (Some (''DWORD'', IntegerType 4 False)) [''DWORD'' \<mapsto> IntegerType 4 False]"
proof -
  have "spelling DWORD_decl \<noteq> []"
    by (simp add: sample_defs)
  moreover have "[''DWORD'' \<mapsto> IntegerType 4 False] (type_spelling (type DWORD_decl)) =
      Some (IntegerType 4 False)"
    by (simp add: sample_defs)
  ultimately show ?thesis
    using define_type_already_defined
      [of DWORD_decl "[''DWORD'' \<mapsto> IntegerType 4 False]" "IntegerType 4 False" 0 sample_ctx]
    by (simp add: sample_defs)
qed

section \<open>Enumerations without a name (C10)\<close>

lemma enum_members_constants:
  "\<forall>m \<in> set ms. kind m = ENUM_CONSTANT_DECL \<Longrightarrow>
   enum_members ms enum bv = Returns (enum @ map (\<lambda>c. (spelling c, enum_value c)) ms) bv"
  by (induction ms arbitrary: enum) simp_all

text \<open>
  C10, as stated for every enum declaration without a name, fails.  The children of
  \<^verbatim>\<open>typedef enum __attribute__((packed)) { RED, GREEN } Packed;\<close> begin with the cursor
  of the attribute; \<^verbatim>\<open>enum_value\<close> asserts on it, outside the \<^verbatim>\<open>try\<close>, and \<^verbatim>\<open>enum_decl\<close>
  raises \<^verbatim>\<open>AssertionError\<close>: nothing is registered and nothing returned.
\<close>

theorem enum_decl_attribute_counterexample:
  "spelling Packed_decl = [] \<and>
   kind Packed_decl = ENUM_DECL \<and>
   enum_decl sample_ctx Packed_decl Map.empty = Raises AssertionError Map.empty \<and>
   define_type (Suc 0) sample_ctx Packed_decl Map.empty = Raises AssertionError Map.empty"
  by (simp add: sample_defs handler_defs enum_decl_def)

text \<open>
  C10, amended: for an enum declaration whose own spelling is empty and whose children are
  all enum constants, \<^verbatim>\<open>enum_decl\<close> registers the enumeration under the spelling of the
  node's type and returns the node's empty spelling as the name; the returned name is not
  the name of the registration (the spelling of an enum type is never empty in libclang).
\<close>

theorem enum_decl_unnamed:
  assumes "spelling node = []" and "type_spelling (type node) \<noteq> []"
      and "\<forall>c \<in> set (get_children node). kind (cursor ctx c) = ENUM_CONSTANT_DECL"
  shows "enum_decl ctx node bv =
           Returns (Some ([], EnumerationType
                      (map (\<lambda>c. (spelling c, enum_value c))
                           (map (cursor ctx) (get_children node)))))
                   (bv(type_spelling (type node) \<mapsto> EnumerationType
                      (map (\<lambda>c. (spelling c, enum_value c))
                           (map (cursor ctx) (get_children node)))))
         \<and> [] \<noteq> type_spelling (type node)"
proof -
  have "\<forall>m \<in> set (map (cursor ctx) (get_children node)). kind m = ENUM_CONSTANT_DECL"
    using assms(3) by simp
  then have "enum_members (map (cursor ctx) (get_children node)) [] bv =
      Returns (map (\<lambda>c. (spelling c, enum_value c)) (map (cursor ctx) (get_children node))) bv"
    using enum_members_constants [of "map (cursor ctx) (get_children node)" "[]" bv] by simp
  then show ?thesis
    using assms(1,2) by (simp add: enum_decl_def define_user_type_def Let_def)
qed

theorem enum_decl_unnamed_witness:
  "enum_decl sample_ctx Color_decl Map.empty =
     Returns (Some ([], EnumerationType [(''RED'', 0), (''GREEN'', 1)]))
             [''Color'' \<mapsto> EnumerationType [(''RED'', 0), (''GREEN'', 1)]]
   \<and> [] \<noteq> type_spelling (type Color_decl)"
  using enum_decl_unnamed [of Color_decl sample_ctx Map.empty]
  by (simp add: sample_defs)

lemmas parser_defs =
  sample_parser_def sample_type_def sample_base_def split_def is_space_def

section \<open>A structure with a pointer to itself (C1)\<close>

text \<open>
  A recursive field never reaches \<^verbatim>\<open>define_type\<close>: the step of the loop is the same for
  every \<open>dt\<close>.  What it appends is the empty structure just registered under the name of
  the pointee's declaration, with that name as the name of the member: no pointer, and
  not the name of the field.
\<close>

lemma struct_fields_recursive:
  assumes "is_recursive_field ctx field"
  shows "struct_fields dt ctx (field # fs) members bv =
           struct_fields dt ctx fs
             (members @ [(Structure, spelling (get_declaration ctx (get_pointee (type field))))])
             (bv(spelling (get_declaration ctx (get_pointee (type field))) \<mapsto> Structure))"
  using assms by (simp add: get_type_by_name_def define_user_type_def Let_def)

text \<open>
  So a definition whose only field is recursive resolves the same whatever \<open>dt\<close> is, also
  for a \<open>dt\<close> that always raises: the resolution of the structure is not entered again.
\<close>

lemma struct_decl_recursive_field_only:
  assumes "is_definition node" and "get_fields ctx (type node) = [field]"
      and "is_recursive_field ctx field"
  shows "struct_decl dt ctx node bv =
           (let struct_name = (if spelling node \<noteq> [] then spelling node
                               else type_spelling (type node));
                pointee_name = spelling (get_declaration ctx (get_pointee (type field)));
                struct = StructureType (get_size (type node)) (get_align (type node))
                           [(Structure, pointee_name)] (kind node = UNION_DECL)
            in Returns (Some (struct_name, struct))
                 (bv(struct_name \<mapsto> Structure, pointee_name \<mapsto> Structure,
                     struct_name \<mapsto> struct)))"
  using assms
  by (simp add: struct_decl_def struct_fields_recursive define_user_type_def Let_def
        del: struct_fields.simps(2))

text \<open>
  C1: on \<^verbatim>\<open>struct _NODE { int val; struct _NODE *next; }\<close> the resolution ends within
  two nested calls of \<^verbatim>\<open>define_type\<close> (the second is for \<^verbatim>\<open>val\<close>), and does not enter
  the resolution of \<^verbatim>\<open>_NODE\<close> again.  The type registered under \<^verbatim>\<open>_NODE\<close> has, for the
  field \<^verbatim>\<open>next\<close>, a member named \<^verbatim>\<open>_NODE\<close> whose type is the empty structure, where the
  claim has a pointer to the type registered under \<^verbatim>\<open>_NODE\<close>.
\<close>

theorem struct_decl_self_reference:
  "define_type (Suc (Suc 0)) sample_ctx NODE_decl Map.empty =
     Returns (Some (''_NODE'',
                StructureType 16 8
                  [(IntegerType 4 True, ''val''), (StructureType 0 1 [] False, ''_NODE'')] False))
             [''_NODE'' \<mapsto>
                StructureType 16 8
                  [(IntegerType 4 True, ''val''), (StructureType 0 1 [] False, ''_NODE'')] False]"
  by (simp add: sample_defs handler_defs parser_defs struct_decl_def Structure_def
        is_recursive_field_def define_definition_def)

section \<open>Chains of pointers (C4)\<close>

lemma nested_pointers_pointers:
  "type_kind b \<noteq> POINTER \<Longrightarrow> nested_pointers c (pointers ss b) = (c + length ss, b)"
proof (induction ss arbitrary: c)
  case Nil
  then show ?case by (simp add: nested_pointers.simps)
next
  case (Cons s ss)
  then show ?case by (simp add: nested_pointers.simps [of c "Pointer s (pointers ss b)"])
qed

lemma funpow_plus_5:
  "(f ^^ (k + 5)) x = (f ^^ k) (f (f (f (f (f x)))))"
proof -
  have "(f ^^ (k + 5)) x = (f ^^ k) ((f ^^ 5) x)"
    by (simp only: funpow_add o_apply)
  moreover have "(f ^^ 5) x = f (f (f (f (f x))))"
    by (simp add: eval_nat_numeral)
  ultimately show ?thesis by simp
qed

text \<open>
  A declaration with \<open>length ss + 3\<close> levels of pointers over a primitive base lowers to
  \<open>length ss + 5\<close> nested pointers: two more than declared.
\<close>

lemma pointer_type_chain:
  assumes "type node = Pointer s1 (Pointer s2 (Pointer s3 (pointers ss b)))"
      and "check_if_base_type b"
      and "parser ctx bv (type_spelling b) = Inr (t, n)"
  shows "pointer_type dt ctx node bv =
           Returns (Some (spelling node, (PointerType ^^ (length ss + 5)) t))
                   (bv(spelling node \<mapsto> (PointerType ^^ (length ss + 5)) t))"
proof -
  have b: "type_kind b \<noteq> POINTER"
    using assms(2) by (auto simp: check_if_base_type_def base_types_def)
  have "nested_pointers 1 (Pointer s3 (pointers ss b)) = (2 + length ss, b)"
    using nested_pointers_pointers [OF b, of 1 "s3 # ss"] by simp
  then show ?thesis
    using assms
    by (simp add: pointer_type_def pointer_to_def handler_defs no_decl_found_def
          funpow_plus_5 funpow_swap1)
qed

text \<open>A declaration with two levels of pointers over a primitive base lowers to one pointer.\<close>

lemma pointer_type_two_levels:
  assumes "type node = Pointer s1 (Pointer s2 b)"
      and "check_if_base_type b"
      and "parser ctx bv (void_spelling (type_spelling b)) = Inr (t, n)"
  shows "pointer_type dt ctx node bv =
           Returns (Some (spelling node, PointerType t)) (bv(spelling node \<mapsto> PointerType t))"
  using assms
  by (simp add: pointer_type_def pointer_to_def handler_defs no_decl_found_def)

text \<open>
  C4: for \<^verbatim>\<open>int ****a\<close>, \<^verbatim>\<open>pointer_type\<close> registers and returns six nested pointers
  around the primitive base, where the declaration has four levels.
\<close>

theorem pointer_type_four_levels:
  "pointer_type dt sample_ctx a_decl Map.empty =
     Returns (Some (''a'', PointerType (PointerType (PointerType (PointerType (PointerType
                (PointerType (IntegerType 4 True))))))))
             [''a'' \<mapsto> PointerType (PointerType (PointerType (PointerType (PointerType
                (PointerType (IntegerType 4 True))))))]"
  by (simp add: sample_defs handler_defs parser_defs pointer_type_def pointer_to_def
        nested_pointers.simps)

section \<open>Arrays of several dimensions (C6)\<close>

lemma define_type_no_decl_found:
  "define_type (Suc n) ctx no_decl_found bv = Returns None bv"
  by (simp add: handler_defs no_decl_found_def)

text \<open>
  An array of three or more dimensions whose element type is not registered: the element
  of the element is no primitive, its declaration is the cursor \<open>no_decl_found\<close>, for
  which \<^verbatim>\<open>define_type\<close> returns \<^verbatim>\<open>None\<close>, and unpacking that raises.
\<close>

lemma constantarray_type_three_dimensions:
  assumes "type node = ConstantArray s1 (ConstantArray s2 (ConstantArray s3 e n3) n2) n1"
      and "bv s2 = None"
  shows "constantarray_type (define_type (Suc n) ctx) ctx node bv = Raises TypeError bv"
  using assms
  by (simp add: constantarray_type_def constant_array_def element_array_def handler_defs
        define_type_no_decl_found [unfolded define_type.simps define_type_step_def]
        no_decl_found_def)

lemma constantarray_type_two_dimensions:
  "define_type (Suc n) sample_ctx grid_decl Map.empty =
     Returns (Some (''grid'', ArrayType (ArrayType (IntegerType 4 True) 3) 2))
             [''grid'' \<mapsto> ArrayType (ArrayType (IntegerType 4 True) 3) 2]"
  by (simp add: sample_defs handler_defs parser_defs constantarray_type_def constant_array_def
        element_array_def)

text \<open>
  C6: for \<^verbatim>\<open>int m[2][3][4]\<close> the resolution raises \<^verbatim>\<open>TypeError\<close> and registers nothing,
  where the claim has three nested arrays; two dimensions are lowered as claimed.
\<close>

theorem constantarray_type_matrix:
  "define_type (Suc (Suc n)) sample_ctx m_decl Map.empty = Raises TypeError Map.empty"
  by (simp add: sample_defs handler_defs constantarray_type_def constant_array_def
        element_array_def)

section \<open>Arrays without a bound (C5)\<close>

lemma y_decl_incomplete:
  "incompletearray_type dt sample_ctx y_decl Map.empty =
     Returns (Some (''y'', ArrayType (IntegerType 4 True) 4096)) Map.empty"
  by (simp add: sample_defs handler_defs parser_defs incompletearray_type_def
        INCOMPLETE_ARRAY_ARBITRARY_SIZE_def)

text \<open>
  C5, as stated, fails: \<^verbatim>\<open>incompletearray_type\<close> has no handler of exceptions.  For
  \<^verbatim>\<open>int x[][3]\<close> the element type \<^verbatim>\<open>int [3]\<close> is neither a primitive nor a pointer, its
  declaration is the cursor \<open>no_decl_found\<close>, \<^verbatim>\<open>define_type\<close> returns \<^verbatim>\<open>None\<close> for it,
  and the unpacking raises \<^verbatim>\<open>TypeError\<close>.
\<close>

theorem incompletearray_type_raises_counterexample:
  "type_kind (type x_decl) = INCOMPLETEARRAY \<and>
   incompletearray_type (define_type (Suc 0) sample_ctx) sample_ctx x_decl Map.empty =
     Raises TypeError Map.empty \<and>
   define_type (Suc (Suc 0)) sample_ctx x_decl Map.empty = Raises TypeError Map.empty"
  by (simp add: sample_defs handler_defs incompletearray_type_def)

lemma pa_decl_incomplete:
  "incompletearray_type dt sample_ctx pa_decl Map.empty =
     Returns (Some (''pa'', ArrayType (PointerType (IntegerType 4 True)) 4096)) Map.empty"
  by (simp add: sample_defs handler_defs parser_defs incompletearray_type_def
        INCOMPLETE_ARRAY_ARBITRARY_SIZE_def void_spelling_def void_types_def)

text \<open>
  C5, amended: whatever \<^verbatim>\<open>incompletearray_type\<close> returns is the node's spelling with an
  array of exactly 4096 elements, and the element type of that array is the resolved
  element type, case by case.  For a primitive element type it is the type the parser
  gives for the element's spelling.  For a pointer to a primitive it is a pointer to the
  type the parser gives for the pointee's spelling (a qualified \<^verbatim>\<open>void\<close> read as
  \<^verbatim>\<open>void\<close>); for a pointer to anything else, a pointer to the type resolved for the
  pointee's declaration.  For every other element type it is the type resolved for the
  element's declaration.  Where the parser rejects the spelling its \<^verbatim>\<open>SyntaxError\<close>
  propagates; where the resolution of a declaration raises, that exception propagates;
  where it yields \<^verbatim>\<open>None\<close>, the unpacking raises \<^verbatim>\<open>TypeError\<close>.
\<close>

theorem incompletearray_type_result:
  "(incompletearray_type dt ctx node bv = Returns r bv' \<longrightarrow>
      (\<exists>t. r = Some (spelling node, ArrayType t 4096))) \<and>
   (check_if_base_type (get_array_element_type (type node)) \<longrightarrow>
      incompletearray_type dt ctx node bv =
        (case parser ctx bv (type_spelling (get_array_element_type (type node))) of
           Inl msg \<Rightarrow> Raises (SyntaxError msg) bv
         | Inr (t, n) \<Rightarrow> Returns (Some (spelling node, ArrayType t 4096)) bv)) \<and>
   (type_kind (get_array_element_type (type node)) = POINTER \<and>
    check_if_base_type (get_pointee (get_array_element_type (type node))) \<longrightarrow>
      incompletearray_type dt ctx node bv =
        (case parser ctx bv
                (void_spelling
                   (type_spelling (get_pointee (get_array_element_type (type node))))) of
           Inl msg \<Rightarrow> Raises (SyntaxError msg) bv
         | Inr (t, n) \<Rightarrow>
             Returns (Some (spelling node, ArrayType (PointerType t) 4096)) bv)) \<and>
   (type_kind (get_array_element_type (type node)) = POINTER \<and>
    \<not> check_if_base_type (get_pointee (get_array_element_type (type node))) \<longrightarrow>
      incompletearray_type dt ctx node bv =
        (case dt (get_declaration ctx (get_pointee (get_array_element_type (type node)))) bv of
           Raises ex bv1 \<Rightarrow> Raises ex bv1
         | Returns None bv1 \<Rightarrow> Raises TypeError bv1
         | Returns (Some (n, t)) bv1 \<Rightarrow>
             Returns (Some (spelling node, ArrayType (PointerType t) 4096)) bv1)) \<and>
   (\<not> check_if_base_type (get_array_element_type (type node)) \<and>
    type_kind (get_array_element_type (type node)) \<noteq> POINTER \<longrightarrow>
      incompletearray_type dt ctx node bv =
        (case dt (get_declaration ctx (get_array_element_type (type node))) bv of
           Raises ex bv1 \<Rightarrow> Raises ex bv1
         | Returns None bv1 \<Rightarrow> Raises TypeError bv1
         | Returns (Some (n, t)) bv1 \<Rightarrow> Returns (Some (spelling node, ArrayType t 4096)) bv1))"
proof (intro conjI impI)
  assume "incompletearray_type dt ctx node bv = Returns r bv'"
  then obtain t bv1 where
    "Returns (Some (spelling node, ArrayType t INCOMPLETE_ARRAY_ARBITRARY_SIZE)) bv1 = Returns r bv'"
    unfolding incompletearray_type_def Let_def by (blast dest: and_then_Returns)
  then show "\<exists>t. r = Some (spelling node, ArrayType t 4096)"
    by (auto simp: INCOMPLETE_ARRAY_ARBITRARY_SIZE_def)
next
  assume "check_if_base_type (get_array_element_type (type node))"
  then show "incompletearray_type dt ctx node bv =
        (case parser ctx bv (type_spelling (get_array_element_type (type node))) of
           Inl msg \<Rightarrow> Raises (SyntaxError msg) bv
         | Inr (t, n) \<Rightarrow> Returns (Some (spelling node, ArrayType t 4096)) bv)"
    by (simp add: incompletearray_type_def parse_type_string_def
          INCOMPLETE_ARRAY_ARBITRARY_SIZE_def split: sum.splits)
next
  assume a: "type_kind (get_array_element_type (type node)) = POINTER \<and>
    check_if_base_type (get_pointee (get_array_element_type (type node)))"
  then have "\<not> check_if_base_type (get_array_element_type (type node))"
    by (simp add: check_if_base_type_def base_types_def)
  with a show "incompletearray_type dt ctx node bv =
        (case parser ctx bv
                (void_spelling
                   (type_spelling (get_pointee (get_array_element_type (type node))))) of
           Inl msg \<Rightarrow> Raises (SyntaxError msg) bv
         | Inr (t, n) \<Rightarrow>
             Returns (Some (spelling node, ArrayType (PointerType t) 4096)) bv)"
    by (simp add: incompletearray_type_def parse_type_string_def
          INCOMPLETE_ARRAY_ARBITRARY_SIZE_def split: sum.splits)
next
  assume a: "type_kind (get_array_element_type (type node)) = POINTER \<and>
    \<not> check_if_base_type (get_pointee (get_array_element_type (type node)))"
  then have "\<not> check_if_base_type (get_array_element_type (type node))"
    by (simp add: check_if_base_type_def base_types_def)
  with a show "incompletearray_type dt ctx node bv =
        (case dt (get_declaration ctx (get_pointee (get_array_element_type (type node)))) bv of
           Raises ex bv1 \<Rightarrow> Raises ex bv1
         | Returns None bv1 \<Rightarrow> Raises TypeError bv1
         | Returns (Some (n, t)) bv1 \<Rightarrow>
             Returns (Some (spelling node, ArrayType (PointerType t) 4096)) bv1)"
    by (simp add: incompletearray_type_def unpack_def INCOMPLETE_ARRAY_ARBITRARY_SIZE_def
          split: outcome.splits option.splits)
next
  assume "\<not> check_if_base_type (get_array_element_type (type node)) \<and>
    type_kind (get_array_element_type (type node)) \<noteq> POINTER"
  then show "incompletearray_type dt ctx node bv =
        (case dt (get_declaration ctx (get_array_element_type (type node))) bv of
           Raises ex bv1 \<Rightarrow> Raises ex bv1
         | Returns None bv1 \<Rightarrow> Raises TypeError bv1
         | Returns (Some (n, t)) bv1 \<Rightarrow> Returns (Some (spelling node, ArrayType t 4096)) bv1)"
    by (simp add: incompletearray_type_def unpack_def INCOMPLETE_ARRAY_ARBITRARY_SIZE_def
          split: outcome.splits option.splits)
qed

theorem incompletearray_type_result_witness:
  "incompletearray_type (define_type 0 sample_ctx) sample_ctx y_decl Map.empty =
     Returns (Some (''y'', ArrayType (IntegerType 4 True) 4096)) Map.empty \<and>
   incompletearray_type (define_type 0 sample_ctx) sample_ctx pa_decl Map.empty =
     Returns (Some (''pa'', ArrayType (PointerType (IntegerType 4 True)) 4096)) Map.empty"
  using incompletearray_type_result
    [of "define_type 0 sample_ctx" sample_ctx y_decl Map.empty
        "Some (''y'', ArrayType (IntegerType 4 True) 4096)" Map.empty]
    incompletearray_type_result
    [of "define_type 0 sample_ctx" sample_ctx pa_decl Map.empty
        "Some (''pa'', ArrayType (PointerType (IntegerType 4 True)) 4096)" Map.empty]
  by (simp add: sample_defs parser_defs check_if_base_type_def base_types_def
        void_spelling_def void_types_def)

section \<open>Which handlers register what they return (C3)\<close>

lemma anonymous_struct_unregistered:
  "define_anonymous_type dt ctx (anonymous_struct d s) bv =
     Returns (Some (''anon_'' @ xxh64_hexdigest ctx s, StructureType 0 1 [] False)) bv"
  by (simp add: define_anonymous_type_def anonymous_struct_def decl_def get_fields_def)

text \<open>
  C3, as stated, fails for the two handlers it names: from the empty registry,
  \<^verbatim>\<open>incompletearray_type\<close> on \<^verbatim>\<open>int y[]\<close> and \<^verbatim>\<open>define_anonymous_type\<close> on an empty
  anonymous structure each return a name and a type and leave the registry empty.
\<close>

theorem unregistered_results_counterexample:
  "incompletearray_type (define_type 0 sample_ctx) sample_ctx y_decl Map.empty =
     Returns (Some (''y'', ArrayType (IntegerType 4 True) 4096)) Map.empty \<and>
   (Map.empty :: BinaryView) ''y'' = None \<and>
   define_anonymous_type (define_type 0 sample_ctx) sample_ctx
       (anonymous_struct 12 ''struct (unnamed at sample.h:11:1)'') Map.empty =
     Returns (Some (''anon_'' @ xxh64_hexdigest sample_ctx ''struct (unnamed at sample.h:11:1)'',
                    StructureType 0 1 [] False)) Map.empty \<and>
   (Map.empty :: BinaryView)
       (''anon_'' @ xxh64_hexdigest sample_ctx ''struct (unnamed at sample.h:11:1)'') = None"
  using y_decl_incomplete [of "define_type 0 sample_ctx"]
    anonymous_struct_unregistered
      [of "define_type 0 sample_ctx" sample_ctx 12 "''struct (unnamed at sample.h:11:1)''" Map.empty]
  by simp

lemma pointer_type_registers:
  "pointer_type dt ctx node bv = Returns (Some (name, t)) bv' \<Longrightarrow> bv' name = Some t"
  unfolding pointer_type_def
  by (auto simp: define_user_type_def split: if_splits dest!: and_then_Returns)

lemma constantarray_type_registers:
  "constantarray_type dt ctx node bv = Returns (Some (name, t)) bv' \<Longrightarrow> bv' name = Some t"
  unfolding constantarray_type_def
  by (auto simp: define_user_type_def dest!: and_then_Returns)

lemma struct_decl_registers:
  "struct_decl dt ctx node bv = Returns (Some (name, t)) bv' \<Longrightarrow> bv' name = Some t"
  unfolding struct_decl_def Let_def
  by (auto simp: define_user_type_def dest!: and_then_Returns)

lemma function_decl_registers:
  "function_decl dt ctx node bv = Returns (Some (name, t)) bv' \<Longrightarrow> bv' name = Some t"
  unfolding function_decl_def Let_def
  by (auto simp: define_user_type_def split: if_splits dest!: and_then_Returns)

lemma var_decl_registers:
  "var_decl ctx node bv = Returns (Some (name, t)) bv' \<Longrightarrow> bv' name = Some t"
  unfolding var_decl_def
  by (auto simp: define_user_type_def dest!: and_then_Returns)

lemma typedef_decl_registers:
  "typedef_decl ctx node bv = Returns (Some (name, t)) bv' \<Longrightarrow> bv' name = Some t"
  unfolding typedef_decl_def Let_def
  by (auto simp: define_user_type_def get_type_by_name_def
        split: if_splits sum.splits prod.splits dest!: and_then_Returns)

text \<open>
  C3, amended: every pair of a name and a type returned by \<^verbatim>\<open>pointer_type\<close>,
  \<^verbatim>\<open>constantarray_type\<close>, \<^verbatim>\<open>struct_decl\<close>, \<^verbatim>\<open>function_decl\<close>, \<^verbatim>\<open>var_decl\<close> or
  \<^verbatim>\<open>typedef_decl\<close> is registered under that name in the registry the handler leaves.
  (\<^verbatim>\<open>incompletearray_type\<close> and \<^verbatim>\<open>define_anonymous_type\<close> hand their pair to the caller
  without registering it.)
\<close>

theorem registering_handlers:
  "(pointer_type dt ctx node bv = Returns (Some (name, t)) bv' \<longrightarrow> bv' name = Some t) \<and>
   (constantarray_type dt ctx node bv = Returns (Some (name, t)) bv' \<longrightarrow> bv' name = Some t) \<and>
   (struct_decl dt ctx node bv = Returns (Some (name, t)) bv' \<longrightarrow> bv' name = Some t) \<and>
   (function_decl dt ctx node bv = Returns (Some (name, t)) bv' \<longrightarrow> bv' name = Some t) \<and>
   (var_decl ctx node bv = Returns (Some (name, t)) bv' \<longrightarrow> bv' name = Some t) \<and>
   (typedef_decl ctx node bv = Returns (Some (name, t)) bv' \<longrightarrow> bv' name = Some t)"
  by (intro conjI impI)
    (erule pointer_type_registers constantarray_type_registers struct_decl_registers
       function_decl_registers var_decl_registers typedef_decl_registers)+

lemma T_struct_forward:
  "struct_decl dt sample_ctx T_struct bv =
     Returns (Some (''T'', StructureType (- 2) (- 2) [] False))
             (bv(''T'' \<mapsto> StructureType (- 2) (- 2) [] False))"
  by (simp add: sample_defs handler_defs struct_decl_def Structure_def)

theorem registering_handlers_witness:
  "struct_decl (define_type 0 sample_ctx) sample_ctx T_struct Map.empty =
     Returns (Some (''T'', StructureType (- 2) (- 2) [] False))
             [''T'' \<mapsto> StructureType (- 2) (- 2) [] False] \<and>
   [''T'' \<mapsto> StructureType (- 2) (- 2) [] False] ''T'' =
     Some (StructureType (- 2) (- 2) [] False)"
  using registering_handlers
    [of "define_type 0 sample_ctx" sample_ctx T_struct Map.empty "''T''"
        "StructureType (- 2) (- 2) [] False" "[''T'' \<mapsto> StructureType (- 2) (- 2) [] False]"]
    T_struct_forward [of "define_type 0 sample_ctx" Map.empty]
  by simp

section \<open>The pass over the top-level declarations (C7)\<close>

lemma pre_define_types_sample:
  "pre_define_types sample_ctx ntdll Map.empty =
     Returns ()
       [''_Bool'' \<mapsto> BoolType,
        ''_RTL_CRITICAL_SECTION'' \<mapsto> StructureType 0 1 [] False,
        ''_RTL_CRITICAL_SECTION_DEBUG'' \<mapsto> StructureType 0 1 [] False,
        ''IRpcChannelBuffer'' \<mapsto> StructureType 0 1 [] False,
        ''PRTL_CRITICAL_SECTION_DEBUG'' \<mapsto>
           PointerType (NamedTypeReference ''_RTL_CRITICAL_SECTION_DEBUG'')]"
  by (simp add: pre_define_types_def ntdll_def sample_ctx_def parser_defs
        parse_type_string_def define_user_type_def Structure_def)

lemma x_decl_raises:
  "bv ''int [][3]'' = None \<Longrightarrow>
   define_type (Suc (Suc 0)) sample_ctx x_decl bv = Raises TypeError bv"
  by (simp add: sample_defs handler_defs incompletearray_type_def)

lemma main_decl_absent:
  "bv ''int (void)'' = None \<Longrightarrow>
   define_type (Suc (Suc 0)) sample_ctx main_decl bv = Returns None bv"
  by (simp add: sample_defs handler_defs functionproto_type_def)

lemma T_struct_defined:
  "bv ''struct T'' = None \<Longrightarrow>
   define_type (Suc (Suc 0)) sample_ctx T_struct bv =
     Returns (Some (''T'', StructureType (- 2) (- 2) [] False))
             (bv(''T'' \<mapsto> StructureType (- 2) (- 2) [] False))"
  by (simp add: sample_defs handler_defs struct_decl_def Structure_def)

text \<open>
  C7, as stated, fails: the loop of \<^verbatim>\<open>pp\<close> calls \<^verbatim>\<open>define_type\<close> outside any \<^verbatim>\<open>try\<close>.
  With the children \<^verbatim>\<open>int x[][3]\<close> and \<^verbatim>\<open>struct T\<close> the resolution of the first raises
  \<^verbatim>\<open>TypeError\<close>; the exception leaves \<^verbatim>\<open>pp\<close>, and \<^verbatim>\<open>struct T\<close>, which resolves from the
  same registry when it is tried, is never reached: the registry \<^verbatim>\<open>pp\<close> leaves holds the
  seeded names only.
\<close>

theorem pp_raise_counterexample:
  "get_children (sample_cursor 0) = [6, 8] \<and>
   pp (Suc (Suc 0)) sample_ctx (sample_cursor 0) Map.empty =
     Raises TypeError
       [''_Bool'' \<mapsto> BoolType,
        ''_RTL_CRITICAL_SECTION'' \<mapsto> StructureType 0 1 [] False,
        ''_RTL_CRITICAL_SECTION_DEBUG'' \<mapsto> StructureType 0 1 [] False,
        ''IRpcChannelBuffer'' \<mapsto> StructureType 0 1 [] False,
        ''PRTL_CRITICAL_SECTION_DEBUG'' \<mapsto>
           PointerType (NamedTypeReference ''_RTL_CRITICAL_SECTION_DEBUG'')] \<and>
   define_type (Suc (Suc 0)) sample_ctx (sample_cursor 8)
       [''_Bool'' \<mapsto> BoolType,
        ''_RTL_CRITICAL_SECTION'' \<mapsto> StructureType 0 1 [] False,
        ''_RTL_CRITICAL_SECTION_DEBUG'' \<mapsto> StructureType 0 1 [] False,
        ''IRpcChannelBuffer'' \<mapsto> StructureType 0 1 [] False,
        ''PRTL_CRITICAL_SECTION_DEBUG'' \<mapsto>
           PointerType (NamedTypeReference ''_RTL_CRITICAL_SECTION_DEBUG'')] =
     Returns (Some (''T'', StructureType (- 2) (- 2) [] False))
       [''_Bool'' \<mapsto> BoolType,
        ''_RTL_CRITICAL_SECTION'' \<mapsto> StructureType 0 1 [] False,
        ''_RTL_CRITICAL_SECTION_DEBUG'' \<mapsto> StructureType 0 1 [] False,
        ''IRpcChannelBuffer'' \<mapsto> StructureType 0 1 [] False,
        ''PRTL_CRITICAL_SECTION_DEBUG'' \<mapsto>
           PointerType (NamedTypeReference ''_RTL_CRITICAL_SECTION_DEBUG''),
        ''T'' \<mapsto> StructureType (- 2) (- 2) [] False]"
proof -
  let ?bv0 = "[''_Bool'' \<mapsto> BoolType,
        ''_RTL_CRITICAL_SECTION'' \<mapsto> StructureType 0 1 [] False,
        ''_RTL_CRITICAL_SECTION_DEBUG'' \<mapsto> StructureType 0 1 [] False,
        ''IRpcChannelBuffer'' \<mapsto> StructureType 0 1 [] False,
        ''PRTL_CRITICAL_SECTION_DEBUG'' \<mapsto>
           PointerType (NamedTypeReference ''_RTL_CRITICAL_SECTION_DEBUG'')]"
  have c: "cursor sample_ctx 6 = x_decl" "sample_cursor 8 = T_struct"
    "get_children (sample_cursor 0) = [6, 8]"
    by (simp_all add: sample_ctx_def sample_cursor_def decl_def)
  have x: "define_type (Suc (Suc 0)) sample_ctx x_decl ?bv0 = Raises TypeError ?bv0"
    by (rule x_decl_raises) simp
  have t: "define_type (Suc (Suc 0)) sample_ctx T_struct ?bv0 =
      Returns (Some (''T'', StructureType (- 2) (- 2) [] False))
        (?bv0(''T'' \<mapsto> StructureType (- 2) (- 2) [] False))"
    by (rule T_struct_defined) simp
  have "pp (Suc (Suc 0)) sample_ctx (sample_cursor 0) Map.empty = Raises TypeError ?bv0"
    by (simp del: define_type.simps add: pp_def pre_define_types_sample c x)
  then show ?thesis
    using t c by (simp del: define_type.simps)
qed

lemma define_nodes_append:
  "define_nodes dt (xs @ ys) bv = and_then (define_nodes dt xs bv) (\<lambda>u bv1. define_nodes dt ys bv1)"
proof (induction xs arbitrary: bv)
  case Nil
  then show ?case by simp
next
  case (Cons x xs)
  then show ?case by (cases "dt x bv") simp_all
qed

text \<open>
  C7, amended: at whatever position of the sequence of top-level nodes a node stands, once
  the nodes before it have been resolved: when its resolution returns (a pair, or \<^verbatim>\<open>None\<close>
  for a node that no handler resolves), the traversal of \<^verbatim>\<open>pp\<close> goes on with the nodes
  after it, from the registry that resolution left; when its resolution raises (the
  \<^verbatim>\<open>RecursionError\<close> of a recursion without end included), the exception propagates out
  of \<^verbatim>\<open>pp\<close> and the nodes after it are not resolved.
\<close>

theorem pp_passes:
  assumes "pre_define_types ctx ntdll bv = Returns () bv0"
      and "get_children root_node = before @ c # after"
      and "define_nodes (define_type n ctx) (map (cursor ctx) before) bv0 = Returns () bv1"
  shows "(define_type n ctx (cursor ctx c) bv1 = Returns r bv2 \<longrightarrow>
            pp n ctx root_node bv =
              define_nodes (define_type n ctx) (map (cursor ctx) after) bv2) \<and>
         (define_type n ctx (cursor ctx c) bv1 = Raises e bv2 \<longrightarrow>
            pp n ctx root_node bv = Raises e bv2)"
  using assms by (simp add: pp_def define_nodes_append)

theorem pp_passes_witness:
  "pp (Suc (Suc 0)) sample_ctx (sample_cursor 19) Map.empty =
     Returns ()
       [''_Bool'' \<mapsto> BoolType,
        ''_RTL_CRITICAL_SECTION'' \<mapsto> StructureType 0 1 [] False,
        ''_RTL_CRITICAL_SECTION_DEBUG'' \<mapsto> StructureType 0 1 [] False,
        ''IRpcChannelBuffer'' \<mapsto> StructureType 0 1 [] False,
        ''PRTL_CRITICAL_SECTION_DEBUG'' \<mapsto>
           PointerType (NamedTypeReference ''_RTL_CRITICAL_SECTION_DEBUG''),
        ''T'' \<mapsto> StructureType (- 2) (- 2) [] False]"
proof -
  let ?bv0 = "[''_Bool'' \<mapsto> BoolType,
        ''_RTL_CRITICAL_SECTION'' \<mapsto> StructureType 0 1 [] False,
        ''_RTL_CRITICAL_SECTION_DEBUG'' \<mapsto> StructureType 0 1 [] False,
        ''IRpcChannelBuffer'' \<mapsto> StructureType 0 1 [] False,
        ''PRTL_CRITICAL_SECTION_DEBUG'' \<mapsto>
           PointerType (NamedTypeReference ''_RTL_CRITICAL_SECTION_DEBUG'')]"
  have c: "cursor sample_ctx 18 = main_decl" "cursor sample_ctx 8 = T_struct"
    "get_children (sample_cursor 19) = [18] @ 8 # []"
    by (simp_all add: sample_ctx_def sample_cursor_def decl_def)
  have m: "define_type (Suc (Suc 0)) sample_ctx main_decl ?bv0 = Returns None ?bv0"
    by (rule main_decl_absent) simp
  have b: "define_nodes (define_type (Suc (Suc 0)) sample_ctx) (map (cursor sample_ctx) [18]) ?bv0 =
      Returns () ?bv0"
    by (simp del: define_type.simps add: c m)
  have t: "define_type (Suc (Suc 0)) sample_ctx (cursor sample_ctx 8) ?bv0 =
      Returns (Some (''T'', StructureType (- 2) (- 2) [] False))
        (?bv0(''T'' \<mapsto> StructureType (- 2) (- 2) [] False))"
    unfolding c by (rule T_struct_defined) simp
  from pp_passes [OF pre_define_types_sample c(3) b] t
  have "pp (Suc (Suc 0)) sample_ctx (sample_cursor 19) Map.empty =
          define_nodes (define_type (Suc (Suc 0)) sample_ctx) (map (cursor sample_ctx) [])
            (?bv0(''T'' \<mapsto> StructureType (- 2) (- 2) [] False))"
    by blast
  then show ?thesis
    by simp
qed

section \<open>The names of anonymous aggregates (C9)\<close>

text \<open>The sixteen hexadecimal digits determine the 64-bit digest.\<close>

lemma hex_digit_inj:
  assumes "m < 16" and "n < 16" and "hex_digit m = hex_digit n"
  shows "m = n"
proof -
  have d: "distinct ''0123456789abcdef''" by simp
  have "''0123456789abcdef'' ! m = ''0123456789abcdef'' ! n"
    using assms by (simp add: hex_digit_def)
  with d assms(1,2) show ?thesis
    by (simp add: nth_eq_iff_index_eq)
qed

lemma nibble_less: "unat (w AND (15 :: 64 word)) < 16"
proof -
  have "w AND (15 :: 64 word) \<le> 15" by (rule word_and_le1)
  then have "unat (w AND (15 :: 64 word)) \<le> unat (15 :: 64 word)" by (simp add: word_le_nat_alt)
  then show ?thesis by simp
qed

lemma bit_nibble:
  "bit (drop_bit (4 * k) w AND (15 :: 64 word)) j \<longleftrightarrow> j < 4 \<and> bit w (4 * k + j)"
proof -
  have m: "(15 :: 64 word) = mask 4" by (simp add: mask_eq_exp_minus_1)
  have "bit (drop_bit (4 * k) w AND (mask 4 :: 64 word)) j \<longleftrightarrow> j < 4 \<and> bit w (4 * k + j)"
    by (auto simp: bit_and_iff bit_mask_iff bit_drop_bit_eq simp del: mask_numeral)
  then show ?thesis
    by (simp only: m)
qed

lemma hexdigest_inj:
  assumes "hexdigest w1 = hexdigest w2"
  shows "w1 = w2"
proof (rule bit_word_eqI)
  fix n :: nat
  assume n: "n < LENGTH(64)"
  define i where "i = 15 - n div 4"
  have i: "i < 16" "4 * (15 - i) = 4 * (n div 4)"
    using n by (auto simp: i_def)
  have "hexdigest w1 ! i = hexdigest w2 ! i"
    using assms by simp
  then have "hex_digit (unat (drop_bit (4 * (15 - i)) w1 AND 15)) =
             hex_digit (unat (drop_bit (4 * (15 - i)) w2 AND 15))"
    using i(1) by (simp add: hexdigest_def)
  then have "unat (drop_bit (4 * (15 - i)) w1 AND 15) = unat (drop_bit (4 * (15 - i)) w2 AND 15)"
    by (intro hex_digit_inj nibble_less)
  then have "drop_bit (4 * (n div 4)) w1 AND 15 = drop_bit (4 * (n div 4)) w2 AND 15"
    using i(2) by (simp add: word_unat_eq_iff)
  then have "bit (drop_bit (4 * (n div 4)) w1 AND 15) (n mod 4) =
             bit (drop_bit (4 * (n div 4)) w2 AND 15) (n mod 4)"
    by simp
  then show "bit w1 n = bit w2 n"
    by (simp add: bit_nibble)
qed

text \<open>
  The definition of XXH64 gives the digests that the xxHash library documents for the
  empty input, for \<^verbatim>\<open>abc\<close>, for \<^verbatim>\<open>xxhash\<close>, and for an input longer than one stripe.
\<close>

lemma XXH64_empty: "XXH64 [] 0 = 0xEF46DB3751D8E999"
  by code_simp

lemma XXH64_abc: "XXH64 ''abc'' 0 = 0x44BC2CF5AD770999"
  by code_simp

lemma XXH64_xxhash: "XXH64 ''xxhash'' 0 = 0x32DD38952C4BC720"
  by code_simp

lemma XXH64_spammish:
  "XXH64 ''Nobody inspects the spammish repetition'' 0 = 0xFBCEA83C8A378BF1"
  by code_simp

lemma XXH64_win_jvpgFE64:
  "XXH64 ''struct (unnamed at /opt/sdk/include/win_jvpgFE64/shared/headers/ntdll/v_a0OSOFXC/anon_types.h:3:9)'' 0
     = 0x5C210EA1DC36C4B3"
  by code_simp

lemma XXH64_win_8ShyYn2z:
  "XXH64 ''struct (unnamed at /opt/sdk/include/win_8ShyYn2z/shared/headers/ntdll/v_zlrRu3Sn/anon_types.h:3:9)'' 0
     = 0x5C210EA1DC36C4B3"
  by code_simp

lemma hexdigest_5C210EA1DC36C4B3: "hexdigest 0x5C210EA1DC36C4B3 = ''5c210ea1dc36c4b3''"
  by code_simp

lemma XXH64_sample_structs:
  "XXH64 ''struct (unnamed at sample.h:11:1)'' 0 = 0xD40D44A33A96C581 \<and>
   XXH64 ''struct (unnamed at sample.h:11:17)'' 0 = 0x21347129C694122D"
  by code_simp

text \<open>
  C9, as stated, fails in its last part.  An anonymous structure at line 3, column 9 of
  the header \<^verbatim>\<open>/opt/sdk/include/win_jvpgFE64/shared/headers/ntdll/v_a0OSOFXC/anon_types.h\<close>
  and one at the same place of
  \<^verbatim>\<open>/opt/sdk/include/win_8ShyYn2z/shared/headers/ntdll/v_zlrRu3Sn/anon_types.h\<close> have
  different type spellings with the same XXH64 digest, and \<^verbatim>\<open>define_anonymous_type\<close>
  gives both the name \<^verbatim>\<open>anon_5c210ea1dc36c4b3\<close>.
\<close>

theorem anonymous_names_collide_counterexample:
  "''struct (unnamed at /opt/sdk/include/win_jvpgFE64/shared/headers/ntdll/v_a0OSOFXC/anon_types.h:3:9)'' \<noteq>
   ''struct (unnamed at /opt/sdk/include/win_8ShyYn2z/shared/headers/ntdll/v_zlrRu3Sn/anon_types.h:3:9)'' \<and>
   define_anonymous_type (define_type 0 sample_ctx) sample_ctx
       (anonymous_struct 23
          ''struct (unnamed at /opt/sdk/include/win_jvpgFE64/shared/headers/ntdll/v_a0OSOFXC/anon_types.h:3:9)'')
       Map.empty =
     Returns (Some (''anon_5c210ea1dc36c4b3'', StructureType 0 1 [] False)) Map.empty \<and>
   define_anonymous_type (define_type 0 sample_ctx) sample_ctx
       (anonymous_struct 24
          ''struct (unnamed at /opt/sdk/include/win_8ShyYn2z/shared/headers/ntdll/v_zlrRu3Sn/anon_types.h:3:9)'')
       Map.empty =
     Returns (Some (''anon_5c210ea1dc36c4b3'', StructureType 0 1 [] False)) Map.empty"
  by (simp add: anonymous_struct_unregistered xxh64_hexdigest_def sample_ctx_def
        XXH64_win_jvpgFE64 XXH64_win_8ShyYn2z hexdigest_5C210EA1DC36C4B3)

text \<open>
  C9, amended: \<^verbatim>\<open>define_anonymous_type\<close> names each node \<^verbatim>\<open>anon_\<close> followed by the
  hexadecimal digest of the node's type spelling; two nodes with the same type spelling
  receive the same name, and two nodes receive different names exactly when the 64-bit
  digests of their type spellings differ.
\<close>

theorem anonymous_type_names:
  assumes "define_anonymous_type dt1 ctx node1 bv1 = Returns (Some (name1, t1)) bv1'"
      and "define_anonymous_type dt2 ctx node2 bv2 = Returns (Some (name2, t2)) bv2'"
  shows "name1 = ''anon_'' @ xxh64_hexdigest ctx (type_spelling (type node1)) \<and>
         name2 = ''anon_'' @ xxh64_hexdigest ctx (type_spelling (type node2)) \<and>
         (type_spelling (type node1) = type_spelling (type node2) \<longrightarrow> name1 = name2) \<and>
         (name1 = name2 \<longleftrightarrow>
            xxh64 ctx (type_spelling (type node1)) = xxh64 ctx (type_spelling (type node2)))"
proof -
  have 1: "name1 = ''anon_'' @ xxh64_hexdigest ctx (type_spelling (type node1))"
    using assms(1) unfolding define_anonymous_type_def Let_def
    by (auto dest!: and_then_Returns)
  have 2: "name2 = ''anon_'' @ xxh64_hexdigest ctx (type_spelling (type node2))"
    using assms(2) unfolding define_anonymous_type_def Let_def
    by (auto dest!: and_then_Returns)
  have "name1 = name2 \<longleftrightarrow>
      xxh64 ctx (type_spelling (type node1)) = xxh64 ctx (type_spelling (type node2))"
    unfolding 1 2 xxh64_hexdigest_def by (auto dest: hexdigest_inj)
  with 1 2 show ?thesis by simp
qed

theorem anonymous_type_names_witness:
  "xxh64 sample_ctx ''struct (unnamed at sample.h:11:1)'' = 0xD40D44A33A96C581 \<and>
   xxh64 sample_ctx ''struct (unnamed at sample.h:11:17)'' = 0x21347129C694122D \<and>
   ''anon_'' @ xxh64_hexdigest sample_ctx ''struct (unnamed at sample.h:11:1)'' \<noteq>
   ''anon_'' @ xxh64_hexdigest sample_ctx ''struct (unnamed at sample.h:11:17)''"
proof -
  have d: "xxh64 sample_ctx ''struct (unnamed at sample.h:11:1)'' = 0xD40D44A33A96C581"
    "xxh64 sample_ctx ''struct (unnamed at sample.h:11:17)'' = 0x21347129C694122D"
    using XXH64_sample_structs by (simp_all add: sample_ctx_def)
  have t: "type_spelling (type (anonymous_struct 12 ''struct (unnamed at sample.h:11:1)'')) =
             ''struct (unnamed at sample.h:11:1)''"
    "type_spelling (type (anonymous_struct 13 ''struct (unnamed at sample.h:11:17)'')) =
             ''struct (unnamed at sample.h:11:17)''"
    by (simp_all add: anonymous_struct_def decl_def)
  from anonymous_type_names
    [OF anonymous_struct_unregistered
          [of "define_type 0 sample_ctx" sample_ctx 12 "''struct (unnamed at sample.h:11:1)''"
              Map.empty]
        anonymous_struct_unregistered
          [of "define_type 0 sample_ctx" sample_ctx 13 "''struct (unnamed at sample.h:11:17)''"
              Map.empty]]
  have "(''anon_'' @ xxh64_hexdigest sample_ctx ''struct (unnamed at sample.h:11:1)'' =
         ''anon_'' @ xxh64_hexdigest sample_ctx ''struct (unnamed at sample.h:11:17)'') =
        (xxh64 sample_ctx ''struct (unnamed at sample.h:11:1)'' =
         xxh64 sample_ctx ''struct (unnamed at sample.h:11:17)'')"
    unfolding t by blast
  with d show ?thesis by simp
qed

section \<open>Parse failures in typedef resolution (C8)\<close>

lemma size_t_underlying:
  "remove_compiler_directives (type_spelling (underlying_typedef_type size_t_decl)) =
     ''unsigned long long ''"
  by (simp add: remove_compiler_directives_def split_def is_space_def compiler_directives_def
        size_t_decl_def decl_def)

text \<open>
  Where the failure contains both \<^verbatim>\<open>syntax error\<close> and \<^verbatim>\<open>is not defined\<close> and the name
  does not end in \<^verbatim>\<open>_t\<close>, the call of \<^verbatim>\<open>define_user_type\<close> with one argument raises
  \<^verbatim>\<open>TypeError\<close>; nothing is defined.
\<close>

lemma typedef_decl_not_defined:
  assumes "\<not> (spelling node \<noteq> [] \<and> truthy ctx (get_type_by_name bv (spelling node)))"
      and "type_spelling (underlying_typedef_type node) \<noteq> []"
      and "parser ctx bv
             (remove_compiler_directives (type_spelling (underlying_typedef_type node))) = Inl se"
      and "contains se ''syntax error''" and "\<not> endswith (spelling node) ''_t''"
      and "contains se ''is not defined''"
  shows "typedef_decl ctx node bv = Raises TypeError bv"
  using assms by (simp add: typedef_decl_def Let_def)

text \<open>
  C8, as stated, fails.  The retry is behind a test of the message: with a parser whose
  failure does not contain \<^verbatim>\<open>syntax error\<close>, the typedef \<^verbatim>\<open>size_t\<close> is not retried
  under \<^verbatim>\<open>size_T\<close>, although that text would parse, and the result is \<^verbatim>\<open>None\<close>.  And
  where the failure says \<^verbatim>\<open>is not defined\<close> (the typedef \<^verbatim>\<open>DWORD\<close> with the parser of the
  examples), nothing is force-defined: \<^verbatim>\<open>typedef_decl\<close> raises \<^verbatim>\<open>TypeError\<close>.
\<close>

theorem typedef_decl_no_retry_counterexample:
  "endswith (spelling size_t_decl) ''_t'' \<and>
   parser (sample_ctx\<lparr>parser := picky_parser ''invalid type''\<rparr>) Map.empty
      (remove_compiler_directives (type_spelling (underlying_typedef_type size_t_decl))) =
     Inl ''invalid type'' \<and>
   parser (sample_ctx\<lparr>parser := picky_parser ''invalid type''\<rparr>) Map.empty
      (remove_compiler_directives (type_spelling (underlying_typedef_type size_t_decl))
         @ '' '' @ butlast (spelling size_t_decl) @ ''T'') =
     Inr (IntegerType 8 False, ''size_T'') \<and>
   typedef_decl (sample_ctx\<lparr>parser := picky_parser ''invalid type''\<rparr>) size_t_decl Map.empty =
     Returns None Map.empty \<and>
   typedef_decl sample_ctx DWORD_decl Map.empty = Raises TypeError Map.empty"
proof -
  have "typedef_decl sample_ctx DWORD_decl Map.empty = Raises TypeError Map.empty"
    by (simp add: typedef_decl_def truthy_def get_type_by_name_def DWORD_decl_def decl_def
          remove_compiler_directives_def compiler_directives_def sample_ctx_def parser_defs
          endswith_def Let_def)
  moreover have "typedef_decl (sample_ctx\<lparr>parser := picky_parser ''invalid type''\<rparr>)
      size_t_decl Map.empty = Returns None Map.empty"
    using size_t_underlying
    by (simp add: typedef_decl_def truthy_def get_type_by_name_def picky_parser_def Let_def
          size_t_decl_def decl_def)
  ultimately show ?thesis
    by (simp add: size_t_underlying picky_parser_def endswith_def)
      (simp add: size_t_decl_def decl_def)
qed

text \<open>
  C8, amended: when the parse of the underlying type text of a typedef that is not yet
  registered fails with a message that contains \<^verbatim>\<open>syntax error\<close>, and the typedef's name
  ends in \<^verbatim>\<open>_t\<close>, the last character of the name is replaced by \<^verbatim>\<open>T\<close> and the underlying
  text followed by the new name is parsed once more: on success the parsed type is
  registered under the parsed name and returned, on failure the \<^verbatim>\<open>SyntaxError\<close> of the
  retry propagates.  When the message contains \<^verbatim>\<open>syntax error\<close>, the name does not end in
  \<^verbatim>\<open>_t\<close> and the message does not contain \<^verbatim>\<open>is not defined\<close>, or when the message does
  not contain \<^verbatim>\<open>syntax error\<close>, the resolution yields \<^verbatim>\<open>None\<close> and the registry is
  unchanged, with no retry.
\<close>

theorem typedef_decl_parse_failure:
  assumes "\<not> (spelling node \<noteq> [] \<and> truthy ctx (get_type_by_name bv (spelling node)))"
      and "type_spelling (underlying_typedef_type node) \<noteq> []"
      and "parser ctx bv
             (remove_compiler_directives (type_spelling (underlying_typedef_type node))) = Inl se"
  shows "(contains se ''syntax error'' \<and> endswith (spelling node) ''_t'' \<longrightarrow>
            typedef_decl ctx node bv =
              (case parser ctx bv
                      (remove_compiler_directives (type_spelling (underlying_typedef_type node))
                         @ '' '' @ butlast (spelling node) @ ''T'') of
                 Inl msg \<Rightarrow> Raises (SyntaxError msg) bv
               | Inr (var_type, name) \<Rightarrow> Returns (Some (name, var_type)) (bv(name \<mapsto> var_type)))) \<and>
         (contains se ''syntax error'' \<and> \<not> endswith (spelling node) ''_t'' \<and>
          \<not> contains se ''is not defined'' \<longrightarrow>
            typedef_decl ctx node bv = Returns None bv) \<and>
         (\<not> contains se ''syntax error'' \<longrightarrow> typedef_decl ctx node bv = Returns None bv)"
  using assms
  by (auto simp: typedef_decl_def parse_type_string_def define_user_type_def Let_def
        split: sum.splits)

theorem typedef_decl_parse_failure_witness:
  "typedef_decl (sample_ctx\<lparr>parser := picky_parser ''syntax error''\<rparr>) size_t_decl Map.empty =
     Returns (Some (''size_T'', IntegerType 8 False)) [''size_T'' \<mapsto> IntegerType 8 False]"
proof -
  let ?ctx = "sample_ctx\<lparr>parser := picky_parser ''syntax error''\<rparr>"
  have 1: "\<not> (spelling size_t_decl \<noteq> [] \<and>
              truthy ?ctx (get_type_by_name Map.empty (spelling size_t_decl)))"
    by (simp add: truthy_def get_type_by_name_def)
  have 2: "type_spelling (underlying_typedef_type size_t_decl) \<noteq> []"
    by (simp add: size_t_decl_def decl_def)
  have 3: "parser ?ctx Map.empty
             (remove_compiler_directives (type_spelling (underlying_typedef_type size_t_decl))) =
           Inl ''syntax error''"
    by (simp add: size_t_underlying picky_parser_def)
  have 4: "contains ''syntax error'' ''syntax error'' \<and> endswith (spelling size_t_decl) ''_t''"
    by (simp add: endswith_def size_t_decl_def decl_def)
  show ?thesis
    using typedef_decl_parse_failure [OF 1 2 3, unfolded size_t_underlying] 4
    by (simp add: picky_parser_def size_t_decl_def decl_def)
qed

end
